theory Spec2Isabelle
  imports Main "HOL-Library.Sublist" "HOL-Library.Char_ord" "HOL-Library.List_Lexorder"
begin

section \<open>Python values read from and written to the JSON config files\<close>

text \<open>
  The config files hold JSON documents. \<open>json.load\<close> turns a document into Python
  values: \<open>None\<close>, booleans, integers, strings, lists and dicts with string keys. A dict
  keeps its keys in insertion order, so an object is an association list; a Python dict
  never holds a key twice (\<open>wf_json\<close>). Floating point numbers are outside the model.
  Strings are \<open>string\<close>: code points below 256.
\<close>

datatype json =
    JNull
  | JBool bool
  | JInt int
  | JStr string
  | JList "json list"
  | JObj "(string \<times> json) list"

datatype py_error =
    AttributeError
  | KeyError
  | TypeError
  | PatchError
  | CannotUpdateReleaseSnova
  | InstallNodejs
  | CalledProcessError int
  | CommandFailedError
  | SystemExit int
  | Abort
  | OtherError string

text \<open>Python's truth value of an object (\<open>if x:\<close>, \<open>x or y\<close>).\<close>

fun py_truthy :: "json \<Rightarrow> bool" where
  "py_truthy JNull = False"
| "py_truthy (JBool b) = b"
| "py_truthy (JInt i) = (i \<noteq> 0)"
| "py_truthy (JStr s) = (s \<noteq> [])"
| "py_truthy (JList xs) = (xs \<noteq> [])"
| "py_truthy (JObj kvs) = (kvs \<noteq> [])"

text \<open>
  Python's \<open>==\<close> on these values. \<open>bool\<close> is a subclass of \<open>int\<close>, so \<open>True == 1\<close>.
  Lists are equal when they have the same length and equal elements in order. Two dicts
  are equal when they have the same number of items and every key of the first is a key
  of the second with an equal value; the order of insertion plays no part.
\<close>

fun py_eq :: "json \<Rightarrow> json \<Rightarrow> bool"
  and py_eq_list :: "json list \<Rightarrow> json list \<Rightarrow> bool"
  and py_eq_items :: "(string \<times> json) list \<Rightarrow> (string \<times> json) list \<Rightarrow> bool"
where
  "py_eq JNull b = (b = JNull)"
| "py_eq (JBool x) b =
     (case b of JBool y \<Rightarrow> x = y | JInt j \<Rightarrow> (if x then 1 else 0) = j | _ \<Rightarrow> False)"
| "py_eq (JInt i) b =
     (case b of JBool y \<Rightarrow> i = (if y then 1 else 0) | JInt j \<Rightarrow> i = j | _ \<Rightarrow> False)"
| "py_eq (JStr s) b = (b = JStr s)"
| "py_eq (JList xs) b = (case b of JList ys \<Rightarrow> py_eq_list xs ys | _ \<Rightarrow> False)"
| "py_eq (JObj kvs) b =
     (case b of JObj kvs' \<Rightarrow> length kvs = length kvs' \<and> py_eq_items kvs kvs' | _ \<Rightarrow> False)"
| "py_eq_list [] ys = (ys = [])"
| "py_eq_list (x # xs) ys =
     (case ys of [] \<Rightarrow> False | y # ys' \<Rightarrow> py_eq x y \<and> py_eq_list xs ys')"
| "py_eq_items [] kvs' = True"
| "py_eq_items ((k, v) # kvs) kvs' =
     (case map_of kvs' k of None \<Rightarrow> False | Some v' \<Rightarrow> py_eq v v' \<and> py_eq_items kvs kvs')"

text \<open>A value as Python can hold it: no dict, at any depth, has a key twice.\<close>

fun wf_json :: "json \<Rightarrow> bool"
  and wf_json_list :: "json list \<Rightarrow> bool"
  and wf_json_items :: "(string \<times> json) list \<Rightarrow> bool"
where
  "wf_json JNull = True"
| "wf_json (JBool b) = True"
| "wf_json (JInt i) = True"
| "wf_json (JStr s) = True"
| "wf_json (JList xs) = wf_json_list xs"
| "wf_json (JObj kvs) = (distinct (map fst kvs) \<and> wf_json_items kvs)"
| "wf_json_list [] = True"
| "wf_json_list (x # xs) = (wf_json x \<and> wf_json_list xs)"
| "wf_json_items [] = True"
| "wf_json_items ((k, v) # kvs) = (wf_json v \<and> wf_json_items kvs)"

subsection \<open>Dict operations\<close>

text \<open>\<open>d[k] = v\<close>: an existing key keeps its position, a new key goes to the end.\<close>

fun dict_set :: "string \<Rightarrow> json \<Rightarrow> (string \<times> json) list \<Rightarrow> (string \<times> json) list" where
  "dict_set k v [] = [(k, v)]"
| "dict_set k v ((k', v') # kvs) =
     (if k' = k then (k, v) # kvs else (k', v') # dict_set k v kvs)"

text \<open>\<open>d.update(other)\<close> stores the items of \<open>other\<close> one by one, in its order.\<close>

fun dict_update :: "(string \<times> json) list \<Rightarrow> (string \<times> json) list \<Rightarrow> (string \<times> json) list" where
  "dict_update d [] = d"
| "dict_update d ((k, v) # other) = dict_update (dict_set k v d) other"

text \<open>\<open>d.get(k)\<close>: the value, or \<open>None\<close> when the key is missing.\<close>

definition dict_get :: "(string \<times> json) list \<Rightarrow> string \<Rightarrow> json" where
  "dict_get d k = (case map_of d k of None \<Rightarrow> JNull | Some v \<Rightarrow> v)"

text \<open>\<open>x.get(k)\<close> and \<open>x.update(other)\<close> exist on dicts only.\<close>

definition py_get :: "json \<Rightarrow> string \<Rightarrow> py_error + json" where
  "py_get x k = (case x of JObj d \<Rightarrow> Inr (dict_get d k) | _ \<Rightarrow> Inl AttributeError)"

definition py_update :: "json \<Rightarrow> (string \<times> json) list \<Rightarrow> py_error + json" where
  "py_update x other =
     (case x of JObj d \<Rightarrow> Inr (JObj (dict_update d other)) | _ \<Rightarrow> Inl AttributeError)"

text \<open>
  \<open>for d in x\<close>: a list gives its elements, a string its characters, a dict its keys;
  nothing else that JSON can hold is iterable.
\<close>

definition py_iter :: "json \<Rightarrow> py_error + json list" where
  "py_iter x =
     (case x of
        JList xs \<Rightarrow> Inr xs
      | JStr s \<Rightarrow> Inr (map (\<lambda>c. JStr [c]) s)
      | JObj d \<Rightarrow> Inr (map (\<lambda>kv. JStr (fst kv)) d)
      | _ \<Rightarrow> Inl TypeError)"

text \<open>
  A dict whose keys are arbitrary hashable values (\<open>get_domains_dict\<close> keys its result by
  whatever \<open>d["domain"]\<close> holds). Lists and dicts are unhashable; two keys are the same
  key when they are \<open>==\<close>.
\<close>

fun py_hashable :: "json \<Rightarrow> bool" where
  "py_hashable (JList xs) = False"
| "py_hashable (JObj d) = False"
| "py_hashable x = True"

fun vdict_set :: "json \<Rightarrow> json \<Rightarrow> (json \<times> json) list \<Rightarrow> (json \<times> json) list" where
  "vdict_set k v [] = [(k, v)]"
| "vdict_set k v ((k', v') # kvs) =
     (if py_eq k' k then (k', v) # kvs else (k', v') # vdict_set k v kvs)"

fun vdict_get :: "(json \<times> json) list \<Rightarrow> json \<Rightarrow> json" where
  "vdict_get [] k = JNull"
| "vdict_get ((k', v') # kvs) k = (if py_eq k' k then v' else vdict_get kvs k)"

definition vdict_has :: "(json \<times> json) list \<Rightarrow> json \<Rightarrow> bool" where
  "vdict_has d k = list_ex (\<lambda>kv. py_eq (fst kv) k) d"

text \<open>\<open>set(a.keys()) != set(b.keys())\<close>\<close>

definition vdict_keys_differ :: "(json \<times> json) list \<Rightarrow> (json \<times> json) list \<Rightarrow> bool" where
  "vdict_keys_differ a b =
     (\<not> (list_all (\<lambda>kv. vdict_has b (fst kv)) a \<and> list_all (\<lambda>kv. vdict_has a (fst kv)) b))"

section \<open>What \<open>json.dump\<close> writes\<close>

text \<open>
  With \<open>sort_keys=True\<close> the encoder emits the items of every dict, at any depth, in the
  order of \<open>sorted(d.items())\<close>: by key, strings compared code point by code point.
  The document that ends up in the file, and that a later \<open>json.load\<close> returns, is the
  value with its dicts reordered so.
\<close>

fun json_sort_keys :: "json \<Rightarrow> json"
  and json_sort_keys_list :: "json list \<Rightarrow> json list"
  and json_sort_keys_items :: "(string \<times> json) list \<Rightarrow> (string \<times> json) list"
where
  "json_sort_keys JNull = JNull"
| "json_sort_keys (JBool b) = JBool b"
| "json_sort_keys (JInt i) = JInt i"
| "json_sort_keys (JStr s) = JStr s"
| "json_sort_keys (JList xs) = JList (json_sort_keys_list xs)"
| "json_sort_keys (JObj kvs) = JObj (sort_key fst (json_sort_keys_items kvs))"
| "json_sort_keys_list [] = []"
| "json_sort_keys_list (x # xs) = json_sort_keys x # json_sort_keys_list xs"
| "json_sort_keys_items [] = []"
| "json_sort_keys_items ((k, v) # kvs) = (k, json_sort_keys v) # json_sort_keys_items kvs"

definition json_dump :: "json \<Rightarrow> bool \<Rightarrow> json" where
  "json_dump obj sort_keys = (if sort_keys then json_sort_keys obj else obj)"

text \<open>
  The bytes of a document written with \<open>indent=1\<close> (and the default
  \<open>ensure_ascii=True\<close>): one item per line, indented by one space per nesting level,
  \<open>","\<close> between items and \<open>": "\<close> after a key; an empty list or dict is \<open>[]\<close> or \<open>{}\<close>.
\<close>

function nat_to_decimal :: "nat \<Rightarrow> string" where
  "nat_to_decimal n =
     (if n < 10 then [''0123456789'' ! n]
      else nat_to_decimal (n div 10) @ [''0123456789'' ! (n mod 10)])"
  by pat_completeness auto
termination
  by (relation "measure (\<lambda>n. n)") auto

definition int_to_str :: "int \<Rightarrow> string" where
  "int_to_str i = (if i < 0 then ''-'' @ nat_to_decimal (nat (- i)) else nat_to_decimal (nat i))"

definition hex_digit :: "nat \<Rightarrow> char" where
  "hex_digit n = ''0123456789abcdef'' ! (n mod 16)"

definition json_escape_char :: "char \<Rightarrow> string" where
  "json_escape_char c =
     (if c = CHR 0x22 then [CHR 0x5C, CHR 0x22]
      else if c = CHR 0x5C then [CHR 0x5C, CHR 0x5C]
      else if c = CHR 0x08 then [CHR 0x5C, CHR ''b'']
      else if c = CHR 0x0C then [CHR 0x5C, CHR ''f'']
      else if c = CHR 0x0A then [CHR 0x5C, CHR ''n'']
      else if c = CHR 0x0D then [CHR 0x5C, CHR ''r'']
      else if c = CHR 0x09 then [CHR 0x5C, CHR ''t'']
      else if 0x20 \<le> (of_char c :: nat) \<and> (of_char c :: nat) \<le> 0x7E then [c]
      else [CHR 0x5C, CHR ''u'', CHR ''0'', CHR ''0'',
            hex_digit (of_char c div 16), hex_digit (of_char c)])"

definition json_quote :: "string \<Rightarrow> string" where
  "json_quote s = [CHR 0x22] @ concat (map json_escape_char s) @ [CHR 0x22]"

definition newline_indent :: "nat \<Rightarrow> string" where
  "newline_indent level = CHR 0x0A # replicate level CHR '' ''"

fun join :: "string \<Rightarrow> string list \<Rightarrow> string" where
  "join sep [] = []"
| "join sep [x] = x"
| "join sep (x # y # ys) = x @ sep @ join sep (y # ys)"

fun json_render :: "nat \<Rightarrow> json \<Rightarrow> string"
  and json_render_list :: "nat \<Rightarrow> json list \<Rightarrow> string list"
  and json_render_items :: "nat \<Rightarrow> (string \<times> json) list \<Rightarrow> string list"
where
  "json_render level JNull = ''null''"
| "json_render level (JBool b) = (if b then ''true'' else ''false'')"
| "json_render level (JInt i) = int_to_str i"
| "json_render level (JStr s) = json_quote s"
| "json_render level (JList xs) =
     (if xs = [] then ''[]''
      else ''['' @ newline_indent (Suc level)
           @ join ('','' @ newline_indent (Suc level)) (json_render_list (Suc level) xs)
           @ newline_indent level @ '']'')"
| "json_render level (JObj kvs) =
     (if kvs = [] then ''{}''
      else ''{'' @ newline_indent (Suc level)
           @ join ('','' @ newline_indent (Suc level)) (json_render_items (Suc level) kvs)
           @ newline_indent level @ ''}'')"
| "json_render_list level [] = []"
| "json_render_list level (x # xs) = json_render level x # json_render_list level xs"
| "json_render_items level [] = []"
| "json_render_items level ((k, v) # kvs) =
     (json_quote k @ '': '' @ json_render level v) # json_render_items level kvs"

section \<open>The installation on disk and what a run leaves behind\<close>

text \<open>
  \<open>files\<close> maps a path to the JSON document stored there (the value \<open>json.load\<close> returns
  for it); a path without a file maps to \<open>None\<close>. Opening a file for writing is taken to
  succeed. \<open>stdout\<close> collects what \<open>print\<close> wrote, \<open>logs\<close> the calls of \<open>log\<close> with their
  level, \<open>trace\<close> the external steps and commands in the order they were started.
\<close>

datatype event =
    EvInternalPatches
  | EvConfirm
  | EvPauseExec nat
  | EvBackupAllSites
  | EvPullApps "string list" bool
  | EvRequirements
  | EvMigrateSite string
  | EvBuild
  | EvRedisGenerateConfig
  | EvGenerateSupervisorConfig
  | EvMakeNginxConf
  | EvReload bool bool bool
  | EvGetCmdOutput string
  | EvRun string bool

record world =
  files :: "string \<Rightarrow> json option"
  stdout :: "string list"
  logs :: "(string \<times> nat) list"
  trace :: "event list"

type_synonym 'a run = "world \<Rightarrow> (py_error + 'a) \<times> world"

text \<open>Sequencing: an exception ends the run with the world as it is at that point.\<close>

definition bind :: "'a run \<Rightarrow> ('a \<Rightarrow> 'b run) \<Rightarrow> 'b run" where
  "bind m f = (\<lambda>w. case m w of (Inl e, w') \<Rightarrow> (Inl e, w') | (Inr x, w') \<Rightarrow> f x w')"

definition ret :: "'a \<Rightarrow> 'a run" where
  "ret x = (\<lambda>w. (Inr x, w))"

definition raise :: "py_error \<Rightarrow> 'a run" where
  "raise e = (\<lambda>w. (Inl e, w))"

definition lift :: "py_error + 'a \<Rightarrow> 'a run" where
  "lift r = (\<lambda>w. (r, w))"

definition print :: "string \<Rightarrow> unit run" where
  "print s = (\<lambda>w. (Inr (), w\<lparr>stdout := stdout w @ [s]\<rparr>))"

definition log :: "string \<Rightarrow> nat \<Rightarrow> unit run" where
  "log s level = (\<lambda>w. (Inr (), w\<lparr>logs := logs w @ [(s, level)]\<rparr>))"

definition record_event :: "event \<Rightarrow> unit run" where
  "record_event ev = (\<lambda>w. (Inr (), w\<lparr>trace := trace w @ [ev]\<rparr>))"

text \<open>The bytes of the file at a path, if there is one.\<close>

definition file_bytes :: "world \<Rightarrow> string \<Rightarrow> string option" where
  "file_bytes w path = map_option (json_render 0) (files w path)"

text \<open>\<open>os.path.join\<close> (POSIX): a component that starts with a slash restarts the path.\<close>

fun os_path_join :: "string \<Rightarrow> string list \<Rightarrow> string" where
  "os_path_join path [] = path"
| "os_path_join path (b # bs) =
     os_path_join
       (if b \<noteq> [] \<and> hd b = CHR ''/'' then b
        else if path = [] \<or> last path = CHR ''/'' then path @ b
        else path @ ''/'' @ b) bs"

section \<open>config/site\_config.py\<close>

definition site_config_path :: "string \<Rightarrow> string \<Rightarrow> string" where
  "site_config_path snova_path site =
     os_path_join snova_path [''sites'', site, ''site_config.json'']"

definition get_site_config :: "string \<Rightarrow> string \<Rightarrow> json run" where
  "get_site_config site snova_path =
     (\<lambda>w. case files w (site_config_path snova_path site) of
            None \<Rightarrow> (Inr (JObj []), w)
          | Some config \<Rightarrow> (Inr config, w))"

definition put_site_config :: "string \<Rightarrow> json \<Rightarrow> string \<Rightarrow> unit run" where
  "put_site_config site config snova_path =
     (\<lambda>w. (Inr (),
           w\<lparr>files := (files w)(site_config_path snova_path site \<mapsto> json_dump config False)\<rparr>))"

definition update_site_config :: "string \<Rightarrow> (string \<times> json) list \<Rightarrow> string \<Rightarrow> unit run" where
  "update_site_config site new_config snova_path =
     bind (get_site_config site snova_path) (\<lambda>config.
     bind (lift (py_update config new_config)) (\<lambda>config'.
     put_site_config site config' snova_path))"

definition set_url_root :: "string \<Rightarrow> json \<Rightarrow> string \<Rightarrow> unit run" where
  "set_url_root site url_root snova_path =
     update_site_config site [(''host_name'', url_root)] snova_path"

definition get_domains :: "string \<Rightarrow> string \<Rightarrow> json run" where
  "get_domains site snova_path =
     bind (get_site_config site snova_path) (\<lambda>config.
     bind (lift (py_get config ''domains'')) (\<lambda>v.
     ret (if py_truthy v then v else JList [])))"

text \<open>
  The test of \<open>add_domain\<close> and \<open>remove_domain\<close> on one entry:
  \<open>(isinstance(d, dict) and d["domain"] == domain) or d == domain\<close>.
\<close>

definition domain_matches :: "json \<Rightarrow> string \<Rightarrow> py_error + bool" where
  "domain_matches d domain =
     (case d of
        JObj kvs \<Rightarrow>
          (case map_of kvs ''domain'' of
             None \<Rightarrow> Inl KeyError
           | Some n \<Rightarrow> Inr (py_eq n (JStr domain) \<or> py_eq d (JStr domain)))
      | _ \<Rightarrow> Inr (py_eq d (JStr domain)))"

text \<open>The loop of \<open>add_domain\<close>: is there an entry that matches, scanning from the left?\<close>

fun domain_exists :: "json list \<Rightarrow> string \<Rightarrow> py_error + bool" where
  "domain_exists [] domain = Inr False"
| "domain_exists (d # ds) domain =
     (case domain_matches d domain of
        Inl e \<Rightarrow> Inl e
      | Inr True \<Rightarrow> Inr True
      | Inr False \<Rightarrow> domain_exists ds domain)"

text \<open>\<open>domains.append(x)\<close>: only a list has \<open>append\<close>.\<close>

definition py_append :: "json \<Rightarrow> json \<Rightarrow> py_error + json" where
  "py_append xs x = (case xs of JList ys \<Rightarrow> Inr (JList (ys @ [x])) | _ \<Rightarrow> Inl AttributeError)"

definition add_domain :: "string \<Rightarrow> string \<Rightarrow> json \<Rightarrow> json \<Rightarrow> string \<Rightarrow> unit run" where
  "add_domain site domain ssl_certificate ssl_certificate_key snova_path =
     bind (get_domains site snova_path) (\<lambda>domains.
     bind (lift (py_iter domains)) (\<lambda>ds.
     bind (lift (domain_exists ds domain)) (\<lambda>found.
       if found then print (''Domain '' @ domain @ '' already exists'')
       else
         bind (lift (py_append domains
                 (if py_truthy ssl_certificate_key \<and> py_truthy ssl_certificate
                  then JObj [(''domain'', JStr domain),
                             (''ssl_certificate'', ssl_certificate),
                             (''ssl_certificate_key'', ssl_certificate_key)]
                  else JStr domain))) (\<lambda>domains'.
         update_site_config site [(''domains'', domains')] snova_path))))"

text \<open>
  The loop of \<open>remove_domain\<close>: at the first entry that matches, \<open>domains.remove(d)\<close>
  drops the first element that is that entry or is \<open>==\<close> to it, and the loop ends.
  Only a list has \<open>remove\<close>.
\<close>

fun py_remove :: "json list \<Rightarrow> json \<Rightarrow> json list" where
  "py_remove [] d = []"
| "py_remove (x # xs) d = (if x = d \<or> py_eq x d then xs else x # py_remove xs d)"

fun first_match :: "json list \<Rightarrow> string \<Rightarrow> py_error + json option" where
  "first_match [] domain = Inr None"
| "first_match (d # ds) domain =
     (case domain_matches d domain of
        Inl e \<Rightarrow> Inl e
      | Inr True \<Rightarrow> Inr (Some d)
      | Inr False \<Rightarrow> first_match ds domain)"

definition remove_domain :: "string \<Rightarrow> string \<Rightarrow> string \<Rightarrow> unit run" where
  "remove_domain site domain snova_path =
     bind (get_domains site snova_path) (\<lambda>domains.
     bind (lift (py_iter domains)) (\<lambda>ds.
     bind (lift (first_match ds domain)) (\<lambda>found.
     bind (lift (case found of
                   None \<Rightarrow> Inr domains
                 | Some d \<Rightarrow>
                     (case domains of
                        JList xs \<Rightarrow> Inr (JList (py_remove xs d))
                      | _ \<Rightarrow> Inl AttributeError))) (\<lambda>domains'.
     update_site_config site [(''domains'', domains')] snova_path))))"

text \<open>
  \<open>get_domains_dict\<close>: a string entry \<open>d\<close> is stored under \<open>d\<close> as \<open>{"domain": d}\<close>, a dict
  entry under its \<open>"domain"\<close> value; any other entry is skipped. A later entry replaces
  an earlier one of the same name.
\<close>

fun get_domains_dict_loop ::
  "(json \<times> json) list \<Rightarrow> json list \<Rightarrow> py_error + (json \<times> json) list" where
  "get_domains_dict_loop domains_dict [] = Inr domains_dict"
| "get_domains_dict_loop domains_dict (d # ds) =
     (case d of
        JStr s \<Rightarrow> get_domains_dict_loop (vdict_set d (JObj [(''domain'', d)]) domains_dict) ds
      | JObj kvs \<Rightarrow>
          (case map_of kvs ''domain'' of
             None \<Rightarrow> Inl KeyError
           | Some n \<Rightarrow>
               if py_hashable n then get_domains_dict_loop (vdict_set n d domains_dict) ds
               else Inl TypeError)
      | _ \<Rightarrow> get_domains_dict_loop domains_dict ds)"

definition get_domains_dict :: "json \<Rightarrow> py_error + (json \<times> json) list" where
  "get_domains_dict domains =
     (case py_iter domains of Inl e \<Rightarrow> Inl e | Inr ds \<Rightarrow> get_domains_dict_loop [] ds)"

text \<open>
  The loop of \<open>sync_domains\<close> over \<open>existing_domains.values()\<close>:
  \<open>if d != new_domains.get(d["domain"]): changed = True; break\<close>.
\<close>

definition py_getitem :: "json \<Rightarrow> string \<Rightarrow> py_error + json" where
  "py_getitem d k =
     (case d of
        JObj kvs \<Rightarrow> (case map_of kvs k of None \<Rightarrow> Inl KeyError | Some v \<Rightarrow> Inr v)
      | _ \<Rightarrow> Inl TypeError)"

fun records_differ :: "json list \<Rightarrow> (json \<times> json) list \<Rightarrow> py_error + bool" where
  "records_differ [] new_domains = Inr False"
| "records_differ (d # ds) new_domains =
     (case py_getitem d ''domain'' of
        Inl e \<Rightarrow> Inl e
      | Inr n \<Rightarrow>
          if \<not> py_hashable n then Inl TypeError
          else if \<not> py_eq d (vdict_get new_domains n) then Inr True
          else records_differ ds new_domains)"

definition domains_changed ::
  "(json \<times> json) list \<Rightarrow> (json \<times> json) list \<Rightarrow> py_error + bool" where
  "domains_changed existing_domains new_domains =
     (if vdict_keys_differ existing_domains new_domains then Inr True
      else records_differ (map snd existing_domains) new_domains)"

definition sync_domains :: "string \<Rightarrow> json \<Rightarrow> string \<Rightarrow> bool run" where
  "sync_domains site domains snova_path =
     bind (get_domains site snova_path) (\<lambda>current.
     bind (lift (get_domains_dict current)) (\<lambda>existing_domains.
     bind (lift (get_domains_dict domains)) (\<lambda>new_domains.
     bind (lift (domains_changed existing_domains new_domains)) (\<lambda>changed.
       if changed
       then bind (update_site_config site [(''domains'', domains)] ''.'') (\<lambda>_. ret True)
       else ret False))))"

section \<open>snova/utils/snova.py: the installation-wide config\<close>

definition common_site_config_path :: "string \<Rightarrow> string" where
  "common_site_config_path snova_path =
     os_path_join snova_path [''sites'', ''common_site_config.json'']"

definition update_common_site_config :: "(string \<times> json) list \<Rightarrow> string \<Rightarrow> unit run" where
  "update_common_site_config ddict snova_path =
     (\<lambda>w. let filename = common_site_config_path snova_path;
              content = (case files w filename of None \<Rightarrow> JObj [] | Some c \<Rightarrow> c)
          in case py_update content ddict of
               Inl e \<Rightarrow> (Inl e, w)
             | Inr content' \<Rightarrow>
                 (Inr (), w\<lparr>files := (files w)(filename \<mapsto> json_dump content' True)\<rparr>))"

definition set_mariadb_host :: "string \<Rightarrow> string \<Rightarrow> unit run" where
  "set_mariadb_host host snova_path =
     update_common_site_config [(''db_host'', JStr host)] snova_path"

definition set_redis_cache_host :: "string \<Rightarrow> string \<Rightarrow> unit run" where
  "set_redis_cache_host host snova_path =
     update_common_site_config [(''redis_cache'', JStr (''redis://'' @ host))] snova_path"

definition set_redis_queue_host :: "string \<Rightarrow> string \<Rightarrow> unit run" where
  "set_redis_queue_host host snova_path =
     update_common_site_config [(''redis_queue'', JStr (''redis://'' @ host))] snova_path"

definition set_redis_socketio_host :: "string \<Rightarrow> string \<Rightarrow> unit run" where
  "set_redis_socketio_host host snova_path =
     update_common_site_config [(''redis_socketio'', JStr (''redis://'' @ host))] snova_path"

section \<open>snova/utils/snova.py: collaborators\<close>

text \<open>
  The functions below call code that is not part of the two modules modelled here: source
  pulls, dependency installs, site migrations, asset builds, shell commands. Each such
  collaborator is a parameter. One that acts on the installation is a \<open>step\<close>: given the
  files it returns the files it leaves and, when it raises, the exception. One that only
  answers a question is a plain function.
\<close>

type_synonym step = "(string \<Rightarrow> json option) \<Rightarrow> py_error option \<times> (string \<Rightarrow> json option)"

record env =
  cwd :: string
  get_snova_name :: "string \<Rightarrow> string"
  get_cmd_output :: "string \<Rightarrow> py_error + string"
  exec_status :: "string \<Rightarrow> int"
  patches_run :: step
  installed_apps :: "string list"
  get_current_branch :: "string \<Rightarrow> py_error + string"
  is_version_upgrade :: "py_error + (bool \<times> int \<times> int)"
  confirm :: bool
  which :: "string \<Rightarrow> bool"
  backup_all_sites :: step
  pull_apps :: "string list \<Rightarrow> bool \<Rightarrow> step"
  setup_requirements :: step
  sites :: "string list"
  migrate_site :: "string \<Rightarrow> step"
  snova_build :: step
  redis_generate_config :: step
  generate_supervisor_config :: step
  make_nginx_conf :: step
  reload :: "bool \<Rightarrow> bool \<Rightarrow> bool \<Rightarrow> step"

text \<open>Calling a step: the call is entered in the trace, then the step acts on the files.\<close>

definition call :: "event \<Rightarrow> step \<Rightarrow> unit run" where
  "call ev f =
     (\<lambda>w. case f (files w) of
            (None, fs) \<Rightarrow> (Inr (), w\<lparr>files := fs, trace := trace w @ [ev]\<rparr>)
          | (Some e, fs) \<Rightarrow> (Inl e, w\<lparr>files := fs, trace := trace w @ [ev]\<rparr>))"

text \<open>\<open>get_cmd_output(cmd, cwd=snova_path)\<close>: the command's output, or the exception it raises.\<close>

definition get_cmd_output_in :: "env \<Rightarrow> string \<Rightarrow> string run" where
  "get_cmd_output_in e cmd =
     bind (record_event (EvGetCmdOutput cmd)) (\<lambda>_. lift (get_cmd_output e cmd))"

text \<open>
  Modelled from the spec: \<open>Snova.run\<close> (the class \<open>Snova\<close> is not in the two modules). The spec
  says of a restart command that its "failure is reported but does not raise by default;
  the caller decides whether to treat it as fatal (configurable per call)": the command's
  exit status is returned, and a non-zero status raises when \<open>_raise\<close> is set.
\<close>

definition snova_run :: "env \<Rightarrow> string \<Rightarrow> bool \<Rightarrow> int run" where
  "snova_run e cmd raise_on_failure =
     bind (record_event (EvRun cmd raise_on_failure)) (\<lambda>_.
       if exec_status e cmd \<noteq> 0 \<and> raise_on_failure then raise CommandFailedError
       else ret (exec_status e cmd))"

text \<open>
  Modelled from the spec: \<open>Snova(snova_path).conf\<close>, the installation-wide config, "JSON
  object at a fixed path": the document in \<open>sites/common_site_config.json\<close>, read as
  \<open>update_common_site_config\<close> reads it.
\<close>

definition snova_conf :: "string \<Rightarrow> json run" where
  "snova_conf snova_path =
     (\<lambda>w. case files w (common_site_config_path snova_path) of
            None \<Rightarrow> (Inr (JObj []), w)
          | Some c \<Rightarrow> (Inr c, w))"

text \<open>
  Modelled from the spec: \<open>update_config\<close> of \<open>snova.config.common_site_config\<close>, the store's
  \<open>update\<close> on the installation-wide scope: "read-modify-write merge at the top level
  only", persisted by the installation-wide writer.
\<close>

definition update_config :: "json \<Rightarrow> string \<Rightarrow> unit run" where
  "update_config new_config snova_path =
     (case new_config of
        JObj items \<Rightarrow> update_common_site_config items snova_path
      | _ \<Rightarrow> raise TypeError)"

text \<open>\<open>sub in s\<close> on strings.\<close>

fun str_contains :: "string \<Rightarrow> string \<Rightarrow> bool" where
  "str_contains sub [] = (sub = [])"
| "str_contains sub (c # cs) = (prefix sub (c # cs) \<or> str_contains sub cs)"

section \<open>snova/utils/snova.py: restarting the supervisor's processes\<close>

text \<open>
  An override command is a string; for any other true value the run ends in \<open>TypeError\<close>
  without a command being started.
\<close>

definition permission_denied :: string where
  "permission_denied =
     ''error: <class '' @ [CHR 0x27] @ ''PermissionError'' @ [CHR 0x27]
       @ ''>, [Errno 13] Permission denied''"

text \<open>Lines 307 to 323: choose the group from the status output and restart it.\<close>

definition restart_group :: "string \<Rightarrow> bool \<Rightarrow> string \<Rightarrow> string" where
  "restart_group snova_name web_workers supervisor_status =
     (if web_workers \<and> str_contains (snova_name @ ''-web:'') supervisor_status
        then snova_name @ ''-web:'' @ [CHR 0x09]
      else if str_contains (snova_name @ ''-workers:'') supervisor_status
        then snova_name @ ''-workers: '' @ snova_name @ ''-web:''
      else if str_contains (snova_name @ ''-processes:'') supervisor_status
        then snova_name @ ''-processes:''
      else ''sparrow:'')"

definition restart_with :: "env \<Rightarrow> string \<Rightarrow> bool \<Rightarrow> bool \<Rightarrow> string \<Rightarrow> string \<Rightarrow> unit run" where
  "restart_with e snova_name web_workers raise_on_failure sudo supervisor_status =
     bind (snova_run e (sudo @ ''supervisorctl restart ''
                          @ restart_group snova_name web_workers supervisor_status)
             raise_on_failure) (\<lambda>failure.
       if failure \<noteq> 0
       then log (''restarting supervisor failed. Use `snova restart` to retry.'') 3
       else ret ())"

definition restart_supervisor_processes :: "env \<Rightarrow> string \<Rightarrow> bool \<Rightarrow> bool \<Rightarrow> unit run" where
  "restart_supervisor_processes e snova_path web_workers raise_on_failure =
     bind (snova_conf snova_path) (\<lambda>conf.
     bind (lift (py_get conf ''supervisor_restart_cmd'')) (\<lambda>cmd.
       if py_truthy cmd then
         (case cmd of
            JStr c \<Rightarrow> bind (snova_run e c raise_on_failure) (\<lambda>_. ret ())
          | _ \<Rightarrow> raise TypeError)
       else
         (\<lambda>w. case get_cmd_output_in e ''supervisorctl status'' w of
                (Inl (CalledProcessError returncode), w') \<Rightarrow>
                  if returncode = 127
                  then log (''restart failed: Couldn'' @ [CHR 0x27]
                              @ ''t find supervisorctl in PATH'') 3 w'
                  else bind (get_cmd_output_in e ''sudo supervisorctl status'')
                         (restart_with e (get_snova_name e snova_path) web_workers
                            raise_on_failure ''sudo '') w'
              | (Inl err, w') \<Rightarrow> (Inl err, w')
              | (Inr supervisor_status, w') \<Rightarrow>
                  if str_contains permission_denied supervisor_status
                  then bind (get_cmd_output_in e ''sudo supervisorctl status'')
                         (restart_with e (get_snova_name e snova_path) web_workers
                            raise_on_failure ''sudo '') w'
                  else restart_with e (get_snova_name e snova_path) web_workers
                         raise_on_failure [] supervisor_status w')))"

section \<open>snova/utils/snova.py: update\<close>

definition force_message :: string where
  "force_message =
     ''Force flag has been used for a major version change in Sparr'' @
       ''ow and it'' @ [CHR 0x27] @ ''s apps.'' @ [CHR 0x0A] @
       ''This will take significant time to migrate and might break c'' @
       ''ustom apps.''"

definition major_version_message :: "int \<Rightarrow> int \<Rightarrow> string" where
  "major_version_message from_ver to_ver =
     ''This update will cause a major version change in Sparrow/SHO'' @
       ''PPER from ''
       @ int_to_str from_ver @ '' to '' @ int_to_str to_ver @
     ''.'' @ [CHR 0x0A] @
       ''This would take significant time to migrate and might break '' @
       ''custom apps.''"

definition shallow_clone_message :: string where
  "shallow_clone_message =
     ''shallow_clone is set in your snova config.'' @ [CHR 0x0A] @
       ''However without passing the --reset flag, your repositories '' @
       ''will be unshallowed.'' @ [CHR 0x0A] @
       ''To avoid this, cancel this operation and run `snova update -'' @
       ''-reset`.'' @ [CHR 0x0A, CHR 0x0A] @
       ''Consider the consequences of `git reset --hard` on your apps'' @
       '' before you run that.'' @ [CHR 0x0A] @
       ''To avoid seeing this warning, set shallow_clone to false in '' @
       ''your common_site_config.json'' @ [CHR 0x0A, CHR 0x09, CHR 0x09]"

definition master_branch_message :: string where
  "master_branch_message =
     [CHR 0x27] @ ''master'' @ [CHR 0x27] @ '' branch is renamed to '' @
       [CHR 0x27] @ ''version-11'' @ [CHR 0x27] @ '' since '' @ [CHR 0x27] @
       ''version-12'' @ [CHR 0x27] @ '' release.'' @ [CHR 0x0A] @
       ''As of January 2020, the following branches are'' @ [CHR 0x0A] @
       ''version'' @ [CHR 0x09, CHR 0x09] @ ''Sparrow'' @
       [CHR 0x09, CHR 0x09, CHR 0x09] @ ''SHOPPER'' @ [CHR 0x0A] @ ''11'' @
       [CHR 0x09, CHR 0x09] @ ''version-11'' @ [CHR 0x09, CHR 0x09] @
       ''version-11'' @ [CHR 0x0A] @ ''12'' @ [CHR 0x09, CHR 0x09] @
       ''version-12'' @ [CHR 0x09, CHR 0x09] @ ''version-12'' @ [CHR 0x0A] @
       ''13'' @ [CHR 0x09, CHR 0x09] @ ''version-13'' @
       [CHR 0x09, CHR 0x09] @ ''version-13'' @ [CHR 0x0A] @ ''14'' @
       [CHR 0x09, CHR 0x09] @ ''develop'' @ [CHR 0x09, CHR 0x09, CHR 0x09] @
       ''develop'' @ [CHR 0x0A, CHR 0x0A] @
       ''Please switch to new branches to get future updates.'' @
       [CHR 0x0A] @
       ''To switch to your required branch, run the following command'' @
       ''s: snova switch-to-branch [branch-name]''"

definition post_upgrade_message :: string where
  "post_upgrade_message =
     ''As you have setup your snova for production, you will have t'' @
       ''o reload configuration for nginx and supervisor. To complete'' @
       '' the migration, please run the following commands:'' @ [CHR 0x0A] @
       ''sudo service nginx restart'' @ [CHR 0x0A] @
       ''sudo supervisorctl reload''"

definition closing_message :: string where
  "closing_message =
     replicate 80 CHR ''_'' @
     [CHR 0x0A] @
       ''Snova: Deployment tool for Sparrow and Sparrow Applications '' @
       ''(https://sparrow.io/snova).'' @ [CHR 0x0A] @
       ''Open source depends on your contributions, so do give back b'' @
       ''y submitting bug reports, patches and fixes and be a part of'' @
       '' the community :)''"

definition validate_upgrade :: "env \<Rightarrow> int \<Rightarrow> int \<Rightarrow> string \<Rightarrow> unit run" where
  "validate_upgrade e from_ver to_ver snova_path =
     (if 6 \<le> to_ver \<and> \<not> which e ''npm'' \<and> \<not> which e ''node'' \<and> \<not> which e ''nodejs''
      then raise InstallNodejs
      else ret ())"

definition post_upgrade :: "env \<Rightarrow> int \<Rightarrow> int \<Rightarrow> string \<Rightarrow> unit run" where
  "post_upgrade e from_ver to_ver snova_path =
     bind (snova_conf snova_path) (\<lambda>conf.
     bind (print (replicate 80 CHR ''-'' @ ''Your snova was upgraded to version ''
                    @ int_to_str to_ver)) (\<lambda>_.
     bind (lift (py_get conf ''restart_supervisor_on_update'')) (\<lambda>restart.
       if py_truthy restart then
         bind (call EvRedisGenerateConfig (redis_generate_config e)) (\<lambda>_.
         bind (call EvGenerateSupervisorConfig (generate_supervisor_config e)) (\<lambda>_.
         bind (call EvMakeNginxConf (make_nginx_conf e)) (\<lambda>_.
         print post_upgrade_message)))
       else ret ())))"

text \<open>
  \<open>patch_sites\<close>: the sites are migrated in turn; a \<open>subprocess.CalledProcessError\<close> of a
  migration becomes \<open>PatchError\<close>, any other exception passes through.
\<close>

fun patch_sites_loop :: "env \<Rightarrow> string \<Rightarrow> string list \<Rightarrow> unit run" where
  "patch_sites_loop e snova_path [] = ret ()"
| "patch_sites_loop e snova_path (site # rest) =
     (\<lambda>w. case call (EvMigrateSite site) (migrate_site e site) w of
            (Inl (CalledProcessError returncode), w') \<Rightarrow> (Inl PatchError, w')
          | (Inl err, w') \<Rightarrow> (Inl err, w')
          | (Inr u, w') \<Rightarrow> patch_sites_loop e snova_path rest w')"

definition patch_sites :: "env \<Rightarrow> string \<Rightarrow> unit run" where
  "patch_sites e snova_path = patch_sites_loop e snova_path (sites e)"

text \<open>
  \<open>handle_version_upgrade\<close>. \<open>click.confirm(..., abort=True)\<close> raises \<open>Abort\<close> when the
  operator declines; \<open>pause_exec(seconds=10)\<close> waits.
\<close>

definition handle_version_upgrade ::
  "env \<Rightarrow> bool \<times> int \<times> int \<Rightarrow> string \<Rightarrow> bool \<Rightarrow> bool \<Rightarrow> json \<Rightarrow> unit run" where
  "handle_version_upgrade e version_upgrade snova_path force reset conf =
     bind (if fst version_upgrade then
             (if force then log force_message 3
              else bind (print (major_version_message (fst (snd version_upgrade))
                                  (snd (snd version_upgrade)))) (\<lambda>_.
                   bind (record_event EvConfirm) (\<lambda>_.
                   if confirm e then ret () else raise Abort)))
           else ret ()) (\<lambda>_.
     bind (if \<not> reset then
             bind (lift (py_get conf ''shallow_clone'')) (\<lambda>shallow_clone.
               if py_truthy shallow_clone then
                 bind (log shallow_clone_message 3) (\<lambda>_. record_event (EvPauseExec 10))
               else ret ())
           else ret ()) (\<lambda>_.
     if fst version_upgrade \<or> (\<not> fst version_upgrade \<and> force)
     then validate_upgrade e (fst (snd version_upgrade)) (snd (snd version_upgrade)) snova_path
     else ret ()))"

text \<open>
  \<open>validate_branch\<close> looks at the installed apps among \<open>sparrow\<close> and \<open>shopper\<close>. Python
  iterates over a set here, in no fixed order; the model takes \<open>sparrow\<close> first.
  \<open>sys.exit(1)\<close> raises \<open>SystemExit\<close>.
\<close>

fun validate_branch_loop :: "env \<Rightarrow> string list \<Rightarrow> unit run" where
  "validate_branch_loop e [] = ret ()"
| "validate_branch_loop e (app # rest) =
     bind (lift (get_current_branch e app)) (\<lambda>branch.
       if branch = ''master''
       then bind (print master_branch_message) (\<lambda>_. raise (SystemExit 1))
       else validate_branch_loop e rest)"

definition validate_branch :: "env \<Rightarrow> unit run" where
  "validate_branch e =
     validate_branch_loop e (filter (\<lambda>app. app \<in> set (installed_apps e)) [''sparrow'', ''shopper''])"

text \<open>
  \<open>[app.strip() for app in re.split(",| ", apps) if app]\<close>: the pieces between commas and
  spaces, the empty ones dropped, each stripped of white space at both ends.
\<close>

fun re_split :: "(char \<Rightarrow> bool) \<Rightarrow> string \<Rightarrow> string list" where
  "re_split sep [] = [[]]"
| "re_split sep (c # cs) =
     (if sep c then [] # re_split sep cs
      else (case re_split sep cs of [] \<Rightarrow> [[c]] | piece # pieces \<Rightarrow> (c # piece) # pieces))"

definition py_isspace :: "char \<Rightarrow> bool" where
  "py_isspace c =
     (let n = (of_char c :: nat)
      in (9 \<le> n \<and> n \<le> 13) \<or> (28 \<le> n \<and> n \<le> 32) \<or> n = 133 \<or> n = 160)"

definition py_strip :: "string \<Rightarrow> string" where
  "py_strip s = rev (dropWhile py_isspace (rev (dropWhile py_isspace s)))"

definition split_apps :: "string \<Rightarrow> string list" where
  "split_apps apps =
     map py_strip (filter (\<lambda>app. app \<noteq> [])
       (re_split (\<lambda>c. c = CHR '','' \<or> c = CHR '' '') apps))"

record update_args =
  pull :: bool
  apps :: "string option"
  patch :: bool
  build :: bool
  requirements :: bool
  backup :: bool
  compile :: bool
  force :: bool
  reset :: bool
  restart_supervisor :: bool
  restart_systemd :: bool

text \<open>
  \<open>update\<close>. When none of \<open>pull\<close>, \<open>patch\<close>, \<open>build\<close>, \<open>requirements\<close> is asked for, all
  four are (\<open>run_all\<close>). \<open>conf\<close> is one dict, changed in place twice: \<open>conf1\<close> and \<open>conf2\<close>
  are its contents after each change.
\<close>

definition update :: "env \<Rightarrow> update_args \<Rightarrow> unit run" where
  "update e a =
     (let snova_path = cwd e;
          run_all = \<not> (pull a \<or> patch a \<or> build a \<or> requirements a);
          selected = (if (case apps a of None \<Rightarrow> False | Some s \<Rightarrow> s \<noteq> []) \<and> (pull a \<or> run_all)
                      then split_apps (the (apps a)) else [])
      in
     bind (call EvInternalPatches (patches_run e)) (\<lambda>_.
     bind (snova_conf snova_path) (\<lambda>conf.
     bind (lift (py_get conf ''release_snova'')) (\<lambda>release_snova.
     bind (if py_truthy release_snova then raise CannotUpdateReleaseSnova else ret ()) (\<lambda>_.
     bind (validate_branch e) (\<lambda>_.
     bind (lift (is_version_upgrade e)) (\<lambda>version_upgrade.
     bind (handle_version_upgrade e version_upgrade snova_path (force a) (reset a) conf) (\<lambda>_.
     bind (lift (py_update conf [(''maintenance_mode'', JInt 1), (''pause_scheduler'', JInt 1)]))
       (\<lambda>conf1.
     bind (update_config conf1 snova_path) (\<lambda>_.
     bind (if backup a
           then bind (print ''Backing up sites...'') (\<lambda>_.
                  call EvBackupAllSites (backup_all_sites e))
           else ret ()) (\<lambda>_.
     bind (if pull a \<or> run_all
           then bind (print ''Updating apps source...'') (\<lambda>_.
                  call (EvPullApps selected (reset a)) (pull_apps e selected (reset a)))
           else ret ()) (\<lambda>_.
     bind (if requirements a \<or> run_all
           then bind (print ''Setting up requirements...'') (\<lambda>_.
                  call EvRequirements (setup_requirements e))
           else ret ()) (\<lambda>_.
     bind (if patch a \<or> run_all
           then bind (print ''Patching sites...'') (\<lambda>_. patch_sites e snova_path)
           else ret ()) (\<lambda>_.
     bind (if build a \<or> run_all
           then bind (print ''Building assets...'') (\<lambda>_. call EvBuild (snova_build e))
           else ret ()) (\<lambda>_.
     bind (if fst version_upgrade \<or> (\<not> fst version_upgrade \<and> force a)
           then post_upgrade e (fst (snd version_upgrade)) (snd (snd version_upgrade)) snova_path
           else ret ()) (\<lambda>_.
     bind (call (EvReload False (restart_supervisor a) (restart_systemd a))
             (reload e False (restart_supervisor a) (restart_systemd a))) (\<lambda>_.
     bind (lift (py_update conf1 [(''maintenance_mode'', JInt 0), (''pause_scheduler'', JInt 0)]))
       (\<lambda>conf2.
     bind (update_config conf2 snova_path) (\<lambda>_.
     print closing_message)))))))))))))))))))"

section \<open>Domain entries, as the specification describes them\<close>

text \<open>
  A domain entry is a bare domain name or a record with a \<open>domain\<close> field that holds the
  name. The canonical record of a bare name \<open>n\<close> is \<open>{"domain": n}\<close>, that of a record is
  the record itself. \<open>domain_records\<close> gives, for a list of entries, the canonical record
  of each name in it (that of the last entry with the name, should a name occur twice).
\<close>

fun is_domain_entry :: "json \<Rightarrow> bool" where
  "is_domain_entry (JStr s) = True"
| "is_domain_entry (JObj kvs) =
     (case map_of kvs ''domain'' of Some (JStr n) \<Rightarrow> True | _ \<Rightarrow> False)"
| "is_domain_entry d = False"

fun entry_name :: "json \<Rightarrow> string" where
  "entry_name (JStr s) = s"
| "entry_name (JObj kvs) = (case map_of kvs ''domain'' of Some (JStr n) \<Rightarrow> n | _ \<Rightarrow> [])"
| "entry_name d = []"

fun canonical_record :: "json \<Rightarrow> json" where
  "canonical_record (JStr s) = JObj [(''domain'', JStr s)]"
| "canonical_record d = d"

definition domain_records :: "json list \<Rightarrow> string \<Rightarrow> json option" where
  "domain_records ds = map_of (rev (map (\<lambda>d. (entry_name d, canonical_record d)) ds))"

text \<open>The value of a field of a record, if the record has the field.\<close>

definition record_field :: "json option \<Rightarrow> string \<Rightarrow> json option" where
  "record_field r k = (case r of Some (JObj kvs) \<Rightarrow> map_of kvs k | _ \<Rightarrow> None)"

section \<open>Example installations\<close>

definition no_files :: "string \<Rightarrow> json option" where
  "no_files = (\<lambda>path. None)"

definition example_site_config :: json where
  "example_site_config =
     JObj [(''host_name'', JStr ''http://one.example''),
           (''nginx'', JObj [(''port'', JInt 80), (''gzip'', JBool True)]),
           (''domains'',
              JList [JStr ''a.com'',
                     JObj [(''domain'', JStr ''b.com''),
                           (''ssl_certificate'', JStr ''X''),
                           (''ssl_certificate_key'', JStr ''Y'')]])]"

definition example_common_config :: json where
  "example_common_config =
     JObj [(''redis_cache'', JStr ''redis://localhost''),
           (''db'', JObj [(''port'', JInt 3306), (''host'', JStr ''localhost'')]),
           (''maintenance_mode'', JInt 0)]"

definition example_world :: world where
  "example_world =
     \<lparr>files = no_files(''./sites/site1/site_config.json'' \<mapsto> example_site_config,
                         ''./sites/common_site_config.json'' \<mapsto> example_common_config),
      stdout = [], logs = [], trace = []\<rparr>"


definition example_env :: env where
  "example_env =
     \<lparr>cwd = ''.'',
      get_snova_name = (\<lambda>path. ''myinstall''),
      get_cmd_output = (\<lambda>cmd. Inl (CalledProcessError 127)),
      exec_status = (\<lambda>cmd. 0),
      patches_run = (\<lambda>fs. (None, fs)),
      installed_apps = [''sparrow''],
      get_current_branch = (\<lambda>app. Inr ''develop''),
      is_version_upgrade = Inr (False, 14, 14),
      confirm = True,
      which = (\<lambda>cmd. True),
      backup_all_sites = (\<lambda>fs. (None, fs)),
      pull_apps = (\<lambda>apps reset fs. (None, fs)),
      setup_requirements = (\<lambda>fs. (None, fs)),
      sites = [''site1'', ''site2''],
      migrate_site = (\<lambda>site fs. (if site = ''site2'' then Some (CalledProcessError 1) else None, fs)),
      snova_build = (\<lambda>fs. (None, fs)),
      redis_generate_config = (\<lambda>fs. (None, fs)),
      generate_supervisor_config = (\<lambda>fs. (None, fs)),
      make_nginx_conf = (\<lambda>fs. (None, fs)),
      reload = (\<lambda>web supervisor systemd fs. (None, fs))\<rparr>"

definition example_args :: update_args where
  "example_args =
     \<lparr>pull = False, apps = None, patch = False, build = False, requirements = False,
      backup = True, compile = True, force = False, reset = False,
      restart_supervisor = False, restart_systemd = False\<rparr>"

definition example_status :: string where
  "example_status =
     ''myinstall-web:myinstall-sparrow-web          RUNNING   pid 811, uptime 1:02:03'' @ [CHR 0x0A] @
     ''myinstall-workers:myinstall-sparrow-worker-0 RUNNING   pid 812, uptime 1:02:03''"

definition example_env_running :: env where
  "example_env_running = example_env\<lparr>get_cmd_output := (\<lambda>cmd. Inr example_status)\<rparr>"

definition example_env_broken_patch :: env where
  "example_env_broken_patch =
     example_env\<lparr>patches_run := (\<lambda>fs. (Some (OtherError ''ImportError''), fs))\<rparr>"

definition example_env_writing_patch :: env where
  "example_env_writing_patch =
     example_env\<lparr>patches_run := (\<lambda>fs. (None, fs(''./patches.txt'' \<mapsto> JStr ''done'')))\<rparr>"

definition release_world :: world where
  "release_world =
     \<lparr>files = no_files(''./sites/common_site_config.json'' \<mapsto> JObj [(''release_snova'', JBool True)]),
      stdout = [], logs = [], trace = []\<rparr>"

definition config_one :: json where
  "config_one = JObj [(''host_name'', JStr ''one.example''), (''nginx_port'', JInt 80)]"

definition config_two :: json where
  "config_two = JObj [(''nginx_port'', JInt 80), (''host_name'', JStr ''one.example'')]"

definition empty_world :: world where
  "empty_world = \<lparr>files = no_files, stdout = [], logs = [], trace = []\<rparr>"

section \<open>Notions used in the statements about \<open>update\<close>\<close>

text \<open>
  A step keeps the installation-wide config when it leaves the file as it found it. The
  config is a dict when, being an object, it has no key twice.
\<close>

definition keeps_common_config :: "string \<Rightarrow> step \<Rightarrow> bool" where
  "keeps_common_config snova_path f =
     (\<forall>fs. snd (f fs) (common_site_config_path snova_path) = fs (common_site_config_path snova_path))"

definition config_is_dict :: "string \<Rightarrow> (string \<Rightarrow> json option) \<Rightarrow> bool" where
  "config_is_dict snova_path fs =
     (case fs (common_site_config_path snova_path) of
        Some (JObj c) \<Rightarrow> distinct (map fst c)
      | _ \<Rightarrow> True)"

section \<open>Auxiliary notions for the proofs\<close>

text \<open>
  What \<open>get_domains_dict\<close> returns on a list of domain entries: the keys are names, no name
  is there twice, and every value is a record that carries its key as \<open>domain\<close>.
  \<open>dict_view\<close> reads such a dict as a map from names to records.
\<close>

definition names_dict :: "(json \<times> json) list \<Rightarrow> bool" where
  "names_dict d =
     (distinct (map fst d) \<and>
      (\<forall>(k, v) \<in> set d. \<exists>n kvs. k = JStr n \<and> v = JObj kvs \<and> map_of kvs ''domain'' = Some k))"

definition dict_view :: "(json \<times> json) list \<Rightarrow> string \<Rightarrow> json option" where
  "dict_view d = map_of (map (\<lambda>(k, v). (entry_name k, v)) d)"

text \<open>\<open>m.get(n)\<close> on such a map.\<close>

definition record_of :: "(string \<Rightarrow> json option) \<Rightarrow> string \<Rightarrow> json" where
  "record_of m n = (case m n of None \<Rightarrow> JNull | Some v \<Rightarrow> v)"

text \<open>What \<open>sync_domains\<close> decides on two lists of domain entries.\<close>

definition entries_changed :: "json list \<Rightarrow> json list \<Rightarrow> bool" where
  "entries_changed existing proposed =
     (set (map entry_name existing) \<noteq> set (map entry_name proposed) \<or>
      (\<exists>n \<in> set (map entry_name existing).
          \<not> py_eq (record_of (domain_records existing) n) (record_of (domain_records proposed) n)))"

text \<open>
  The events of a run of \<open>update\<close> come in three groups: those of the stages before the
  patch stage, the site migrations, and the rest.
\<close>

fun is_migrate :: "event \<Rightarrow> bool" where
  "is_migrate (EvMigrateSite site) = True"
| "is_migrate ev = False"

fun before_patch :: "event \<Rightarrow> bool" where
  "before_patch EvInternalPatches = True"
| "before_patch EvConfirm = True"
| "before_patch (EvPauseExec n) = True"
| "before_patch EvBackupAllSites = True"
| "before_patch (EvPullApps selected hard) = True"
| "before_patch EvRequirements = True"
| "before_patch ev = False"

definition maintenance_on :: "string \<Rightarrow> (string \<Rightarrow> json option) \<Rightarrow> bool" where
  "maintenance_on snova_path fs =
     (case fs (common_site_config_path snova_path) of
        Some (JObj c) \<Rightarrow> map_of c ''maintenance_mode'' = Some (JInt 1)
      | _ \<Rightarrow> False)"

definition halted_in_maintenance :: "string \<Rightarrow> world \<Rightarrow> bool" where
  "halted_in_maintenance snova_path w =
     (maintenance_on snova_path (files w) \<and> EvBuild \<notin> set (trace w) \<and>
      (\<forall>web supervisor systemd. EvReload web supervisor systemd \<notin> set (trace w)))"

text \<open>
  \<open>triple P m Q E\<close>: from a world in \<open>P\<close>, the run \<open>m\<close> ends in \<open>Q\<close> when it returns and in
  \<open>E\<close> when it raises.
\<close>

definition triple ::
  "(world \<Rightarrow> bool) \<Rightarrow> 'a run \<Rightarrow> ('a \<Rightarrow> world \<Rightarrow> bool) \<Rightarrow> (py_error \<Rightarrow> world \<Rightarrow> bool) \<Rightarrow> bool" where
  "triple P m Q E =
     (\<forall>w. P w \<longrightarrow> (case m w of (Inr x, w') \<Rightarrow> Q x w' | (Inl e, w') \<Rightarrow> E e w'))"

definition patch_halt :: "string \<Rightarrow> py_error \<Rightarrow> world \<Rightarrow> bool" where
  "patch_halt snova_path e w =
     (e = PatchError \<and> trace w \<noteq> [] \<and> is_migrate (last (trace w)) \<longrightarrow>
      halted_in_maintenance snova_path w)"

text \<open>Runs that touch neither the files nor the trace, or only add events of the early stages.\<close>

definition adds_early :: "'a run \<Rightarrow> bool" where
  "adds_early m =
     (\<forall>w. files (snd (m w)) = files w \<and>
          (\<exists>evs. trace (snd (m w)) = trace w @ evs \<and> list_all before_patch evs))"

definition after_patch :: "'a run \<Rightarrow> bool" where
  "after_patch m =
     (\<forall>w. case m w of
            (Inl e, w') \<Rightarrow> e \<noteq> PatchError \<or> (trace w' \<noteq> [] \<and> \<not> is_migrate (last (trace w')))
          | (Inr x, w') \<Rightarrow> True)"

definition in_maintenance :: "string \<Rightarrow> world \<Rightarrow> bool" where
  "in_maintenance p w = (list_all before_patch (trace w) \<and> maintenance_on p (files w))"

definition in_patch_stage :: "string \<Rightarrow> world \<Rightarrow> bool" where
  "in_patch_stage p w =
     (list_all (\<lambda>ev. before_patch ev \<or> is_migrate ev) (trace w) \<and> maintenance_on p (files w))"

definition is_dict :: "json \<Rightarrow> bool" where
  "is_dict conf = (\<exists>c. conf = JObj c \<and> distinct (map fst c))"

definition maintenance_dict :: "json \<Rightarrow> bool" where
  "maintenance_dict conf =
     (\<exists>c. conf = JObj c \<and> distinct (map fst c) \<and> map_of c ''maintenance_mode'' = Some (JInt 1))"

section \<open>Properties of the dict operations\<close>

lemma map_of_dict_set: "map_of (dict_set k v d) = (map_of d)(k \<mapsto> v)"
  by (induction d) (auto simp: fun_eq_iff)

lemma keys_dict_set: "fst ` set (dict_set k v d) = insert k (fst ` set d)"
  using arg_cong [OF map_of_dict_set, of dom k v d] by (simp add: dom_map_of_conv_image_fst)

lemma distinct_dict_set: "distinct (map fst d) \<Longrightarrow> distinct (map fst (dict_set k v d))"
  by (induction d) (auto simp: keys_dict_set)

lemma map_of_dict_update: "map_of (dict_update d p) = map_of d ++ map_of (rev p)"
  by (induction d p rule: dict_update.induct)
     (auto simp: map_of_dict_set fun_eq_iff map_add_def split: option.splits)

lemma map_of_rev_distinct: "distinct (map fst p) \<Longrightarrow> map_of (rev p) = map_of p"
  by (rule map_of_inject_set[THEN iffD2]) (auto simp: rev_map[symmetric])

lemma map_of_merge:
  "distinct (map fst p) \<Longrightarrow>
   map_of (dict_update d p) k = (if k \<in> fst ` set p then map_of p k else map_of d k)"
  by (auto simp: map_of_dict_update map_of_rev_distinct map_add_def image_iff map_of_eq_None_iff
      split: option.splits dest: map_of_SomeD weak_map_of_SomeI)

lemma map_of_json_sort_keys_items:
  "map_of (json_sort_keys_items kvs) k = map_option json_sort_keys (map_of kvs k)"
  by (induction kvs) auto

lemma map_of_insort_key_fst:
  "map_of (insort_key fst x (xs :: (string \<times> json) list)) = map_of (x # xs)"
  by (induction xs) (auto simp: fun_eq_iff)

lemma map_of_sort_key_fst: "map_of (sort_key fst (xs :: (string \<times> json) list)) = map_of xs"
  by (induction xs) (auto simp: map_of_insort_key_fst fun_eq_iff)

section \<open>Properties of the config store\<close>

lemma update_site_config_object:
  "get_site_config site snova_path w = (Inr (JObj cfg), w) \<Longrightarrow>
   update_site_config site new_config snova_path w =
     (Inr (), w\<lparr>files := (files w)(site_config_path snova_path site \<mapsto>
                                   JObj (dict_update cfg new_config))\<rparr>)"
  by (simp add: update_site_config_def bind_def lift_def py_update_def put_site_config_def
      json_dump_def)

lemma example_paths:
  "site_config_path ''.'' ''site1'' = ''./sites/site1/site_config.json''"
  "common_site_config_path ''.'' = ''./sites/common_site_config.json''"
  by (simp_all add: site_config_path_def common_site_config_path_def)

text \<open>
  Claim C9. \<open>update_site_config\<close> and \<open>update_common_site_config\<close> merge at the top level
  only. Let the stored config be an object (or the file be missing, which reads as the
  empty object) and \<open>partial\<close> a dict. Both calls succeed and rewrite their own file with
  an object in which every key of \<open>partial\<close> holds exactly the value \<open>partial\<close> gives it,
  whatever was nested there before, and every other key holds what it held before. The
  installation-wide writer sorts keys, so there each value is read back with the keys of
  its dicts in sorted order (\<open>json_sort_keys\<close>).
\<close>

theorem update_merges_top_level_only:
  assumes partial: "distinct (map fst partial)"
    and site_cfg: "files w (site_config_path snova_path site) = Some (JObj cfg) \<or>
                   files w (site_config_path snova_path site) = None \<and> cfg = []"
    and common_cfg: "files w (common_site_config_path snova_path) = Some (JObj ccfg) \<or>
                     files w (common_site_config_path snova_path) = None \<and> ccfg = []"
  shows "(\<exists>cfg'. update_site_config site partial snova_path w =
            (Inr (), w\<lparr>files := (files w)(site_config_path snova_path site \<mapsto> JObj cfg')\<rparr>) \<and>
          (\<forall>k. map_of cfg' k =
                 (if k \<in> fst ` set partial then map_of partial k else map_of cfg k))) \<and>
         (\<exists>ccfg'. update_common_site_config partial snova_path w =
            (Inr (), w\<lparr>files := (files w)(common_site_config_path snova_path \<mapsto> JObj ccfg')\<rparr>) \<and>
          (\<forall>k. map_of ccfg' k =
                 map_option json_sort_keys
                   (if k \<in> fst ` set partial then map_of partial k else map_of ccfg k)))"
proof
  from site_cfg have "get_site_config site snova_path w = (Inr (JObj cfg), w)"
    by (auto simp: get_site_config_def)
  then have "update_site_config site partial snova_path w =
     (Inr (), w\<lparr>files := (files w)(site_config_path snova_path site \<mapsto>
                                   JObj (dict_update cfg partial))\<rparr>)"
    by (rule update_site_config_object)
  with partial show "\<exists>cfg'. update_site_config site partial snova_path w =
            (Inr (), w\<lparr>files := (files w)(site_config_path snova_path site \<mapsto> JObj cfg')\<rparr>) \<and>
          (\<forall>k. map_of cfg' k =
                 (if k \<in> fst ` set partial then map_of partial k else map_of cfg k))"
    using map_of_merge by blast
next
  let ?new = "sort_key fst (json_sort_keys_items (dict_update ccfg partial))"
  from common_cfg have run: "update_common_site_config partial snova_path w =
      (Inr (), w\<lparr>files := (files w)(common_site_config_path snova_path \<mapsto> JObj ?new)\<rparr>)"
    by (auto simp: update_common_site_config_def py_update_def json_dump_def)
  have "\<forall>k. map_of ?new k = map_option json_sort_keys
                   (if k \<in> fst ` set partial then map_of partial k else map_of ccfg k)"
    using partial by (simp add: map_of_sort_key_fst map_of_json_sort_keys_items map_of_merge)
  with run show "\<exists>ccfg'. update_common_site_config partial snova_path w =
            (Inr (), w\<lparr>files := (files w)(common_site_config_path snova_path \<mapsto> JObj ccfg')\<rparr>) \<and>
          (\<forall>k. map_of ccfg' k =
                 map_option json_sort_keys
                   (if k \<in> fst ` set partial then map_of partial k else map_of ccfg k))"
    by blast
qed

theorem update_merges_top_level_only_witness:
  "(\<exists>cfg'. update_site_config ''site1'' [(''nginx'', JObj [(''port'', JInt 8080)])] ''.''
              example_world =
            (Inr (), example_world\<lparr>files := (files example_world)
               (site_config_path ''.'' ''site1'' \<mapsto> JObj cfg')\<rparr>) \<and>
          map_of cfg' ''nginx'' = Some (JObj [(''port'', JInt 8080)]) \<and>
          map_of cfg' ''host_name'' = Some (JStr ''http://one.example'')) \<and>
   (\<exists>ccfg'. update_common_site_config [(''nginx'', JObj [(''port'', JInt 8080)])] ''.''
              example_world =
            (Inr (), example_world\<lparr>files := (files example_world)
               (common_site_config_path ''.'' \<mapsto> JObj ccfg')\<rparr>) \<and>
          map_of ccfg' ''nginx'' = Some (JObj [(''port'', JInt 8080)]) \<and>
          map_of ccfg' ''redis_cache'' = Some (JStr ''redis://localhost''))"
proof -
  let ?cfg = "[(''host_name'', JStr ''http://one.example''),
           (''nginx'', JObj [(''port'', JInt 80), (''gzip'', JBool True)]),
           (''domains'',
              JList [JStr ''a.com'',
                     JObj [(''domain'', JStr ''b.com''),
                           (''ssl_certificate'', JStr ''X''),
                           (''ssl_certificate_key'', JStr ''Y'')]])]"
  let ?ccfg = "[(''redis_cache'', JStr ''redis://localhost''),
           (''db'', JObj [(''port'', JInt 3306), (''host'', JStr ''localhost'')]),
           (''maintenance_mode'', JInt 0)]"
  have site: "files example_world (site_config_path ''.'' ''site1'') = Some (JObj ?cfg)"
    by (simp add: example_paths example_world_def example_site_config_def)
  have common: "files example_world (common_site_config_path ''.'') = Some (JObj ?ccfg)"
    by (simp add: example_paths example_world_def example_common_config_def)
  have partial: "distinct (map fst [(''nginx'', JObj [(''port'', JInt 8080)])])"
    by simp
  from update_merges_top_level_only [OF partial disjI1 [OF site] disjI1 [OF common]]
  obtain cfg' ccfg' where
    s: "update_site_config ''site1'' [(''nginx'', JObj [(''port'', JInt 8080)])] ''.''
          example_world =
        (Inr (), example_world\<lparr>files := (files example_world)
               (site_config_path ''.'' ''site1'' \<mapsto> JObj cfg')\<rparr>)"
    and sk: "\<And>k. map_of cfg' k =
               (if k \<in> fst ` set [(''nginx'', JObj [(''port'', JInt 8080)])]
                then map_of [(''nginx'', JObj [(''port'', JInt 8080)])] k else map_of ?cfg k)"
    and c: "update_common_site_config [(''nginx'', JObj [(''port'', JInt 8080)])] ''.''
          example_world =
        (Inr (), example_world\<lparr>files := (files example_world)
               (common_site_config_path ''.'' \<mapsto> JObj ccfg')\<rparr>)"
    and ck: "\<And>k. map_of ccfg' k = map_option json_sort_keys
               (if k \<in> fst ` set [(''nginx'', JObj [(''port'', JInt 8080)])]
                then map_of [(''nginx'', JObj [(''port'', JInt 8080)])] k else map_of ?ccfg k)"
    by blast
  have "map_of cfg' ''nginx'' = Some (JObj [(''port'', JInt 8080)])"
    "map_of cfg' ''host_name'' = Some (JStr ''http://one.example'')"
    by (simp_all add: sk)
  moreover have "map_of ccfg' ''nginx'' = Some (JObj [(''port'', JInt 8080)])"
    "map_of ccfg' ''redis_cache'' = Some (JStr ''redis://localhost'')"
    by (simp_all add: ck)
  ultimately show ?thesis
    using s c by blast
qed

section \<open>Properties of the domain list operations\<close>

lemma get_domains_list:
  assumes "files w (site_config_path snova_path site) = Some (JObj cfg)"
    and "map_of cfg ''domains'' = Some (JList ds)"
  shows "get_domains site snova_path w = (Inr (JList ds), w)"
  using assms
  by (cases ds) (simp_all add: get_domains_def get_site_config_def bind_def lift_def ret_def
      py_get_def dict_get_def)

lemma domain_matches_entry:
  "is_domain_entry d \<Longrightarrow> domain_matches d domain = Inr (entry_name d = domain)"
  by (cases d) (auto simp: domain_matches_def split: option.splits json.splits)

lemma domain_exists_entries:
  "list_all is_domain_entry ds \<Longrightarrow>
   domain_exists ds domain = Inr (domain \<in> set (map entry_name ds))"
  by (induction ds) (auto simp: domain_matches_entry split: bool.splits)

text \<open>
  Claim C8. Let the site's config hold a list of domain entries, one of which, bare or
  record, has the name \<open>domain\<close>. Then \<open>add_domain\<close> with that name returns after printing
  \<open>Domain <name> already exists\<close>: the world it leaves differs from the one it found in
  that printed line only, so the list is as it was and no file is written.
\<close>

theorem add_domain_existing_name_is_noop:
  assumes "files w (site_config_path snova_path site) = Some (JObj cfg)"
    and "map_of cfg ''domains'' = Some (JList ds)"
    and "list_all is_domain_entry ds"
    and "domain \<in> set (map entry_name ds)"
  shows "add_domain site domain ssl_certificate ssl_certificate_key snova_path w =
           (Inr (), w\<lparr>stdout := stdout w @ [''Domain '' @ domain @ '' already exists'']\<rparr>)"
proof -
  have "get_domains site snova_path w = (Inr (JList ds), w)"
    using assms(1,2) by (rule get_domains_list)
  moreover have "domain_exists ds domain = Inr True"
    using assms(3,4) by (simp add: domain_exists_entries)
  ultimately show ?thesis
    by (simp add: add_domain_def bind_def lift_def py_iter_def print_def)
qed

theorem add_domain_existing_name_is_noop_witness:
  "add_domain ''site1'' ''a.com'' (JStr ''cert.pem'') (JStr ''key.pem'') ''.'' example_world =
     (Inr (), example_world\<lparr>stdout := [''Domain a.com already exists'']\<rparr>) \<and>
   add_domain ''site1'' ''b.com'' JNull JNull ''.'' example_world =
     (Inr (), example_world\<lparr>stdout := [''Domain b.com already exists'']\<rparr>)"
proof -
  let ?ds = "[JStr ''a.com'',
              JObj [(''domain'', JStr ''b.com''), (''ssl_certificate'', JStr ''X''),
                    (''ssl_certificate_key'', JStr ''Y'')]]"
  have site: "files example_world (site_config_path ''.'' ''site1'') = Some example_site_config"
    by (simp add: example_paths example_world_def)
  have domains: "map_of [(''host_name'', JStr ''http://one.example''),
           (''nginx'', JObj [(''port'', JInt 80), (''gzip'', JBool True)]),
           (''domains'', JList ?ds)] ''domains'' = Some (JList ?ds)"
    by simp
  have entries: "list_all is_domain_entry ?ds"
    by simp
  have a: "''a.com'' \<in> set (map entry_name ?ds)" and b: "''b.com'' \<in> set (map entry_name ?ds)"
    by simp_all
  show ?thesis
    using add_domain_existing_name_is_noop [OF site [unfolded example_site_config_def] domains entries a]
      add_domain_existing_name_is_noop [OF site [unfolded example_site_config_def] domains entries b]
    by (simp add: example_world_def)
qed

subsection \<open>The dict of canonical records\<close>

lemma names_dict_Nil [simp]: "names_dict []" "dict_view [] = Map.empty"
  by (simp_all add: names_dict_def dict_view_def)

lemma names_dict_Cons:
  "names_dict ((k, v) # d) \<longleftrightarrow>
     (\<exists>n kvs. k = JStr n \<and> v = JObj kvs \<and> map_of kvs ''domain'' = Some k) \<and>
     k \<notin> fst ` set d \<and> names_dict d"
  by (auto simp: names_dict_def)

lemma dict_view_Cons: "dict_view ((JStr n, v) # d) = (dict_view d)(n \<mapsto> v)"
  by (simp add: dict_view_def)

lemma dict_view_None: "names_dict d \<Longrightarrow> dict_view d n = None \<longleftrightarrow> JStr n \<notin> fst ` set d"
proof (induction d)
  case Nil
  then show ?case by simp
next
  case (Cons a d)
  obtain k v where a: "a = (k, v)" by (cases a)
  with Cons.prems obtain m where k: "k = JStr m" and d: "names_dict d"
    by (auto simp: names_dict_Cons)
  show ?case using Cons.IH [OF d] by (simp add: a k dict_view_Cons)
qed

lemma vdict_get_view:
  "names_dict d \<Longrightarrow> vdict_get d (JStr n) = (case dict_view d n of None \<Rightarrow> JNull | Some v \<Rightarrow> v)"
  by (induction d) (auto simp: names_dict_Cons dict_view_Cons)

lemma vdict_has_view: "names_dict d \<Longrightarrow> vdict_has d (JStr n) \<longleftrightarrow> n \<in> dom (dict_view d)"
  by (induction d) (auto simp: names_dict_Cons dict_view_Cons vdict_has_def)

lemma vdict_set_keys:
  "names_dict d \<Longrightarrow> fst ` set (vdict_set (JStr n) v d) = insert (JStr n) (fst ` set d)"
proof (induction d)
  case Nil
  then show ?case by simp
next
  case (Cons a d)
  obtain k v' where a: "a = (k, v')" by (cases a)
  with Cons.prems obtain m where k: "k = JStr m" and d: "names_dict d"
    by (auto simp: names_dict_Cons)
  show ?case using Cons.IH [OF d] by (auto simp add: a k)
qed

lemma vdict_set_view:
  "names_dict d \<Longrightarrow> map_of kvs ''domain'' = Some (JStr n) \<Longrightarrow>
   names_dict (vdict_set (JStr n) (JObj kvs) d) \<and>
   dict_view (vdict_set (JStr n) (JObj kvs) d) = (dict_view d)(n \<mapsto> JObj kvs)"
proof (induction d)
  case Nil
  then show ?case by (simp add: names_dict_Cons dict_view_Cons)
next
  case (Cons a d)
  obtain k v where a: "a = (k, v)" by (cases a)
  with Cons.prems obtain m where k: "k = JStr m" by (auto simp: names_dict_Cons)
  show ?case
  proof (cases "m = n")
    case True
    with Cons.prems a k show ?thesis
      by (auto simp: names_dict_Cons dict_view_Cons)
  next
    case False
    from Cons.prems a have d: "names_dict d" by (simp add: names_dict_Cons)
    with Cons.prems a k False Cons.IH show ?thesis
      by (auto simp: names_dict_Cons dict_view_Cons vdict_set_keys fun_upd_twist)
  qed
qed

lemma domain_records_Cons:
  "domain_records (d # ds) = [entry_name d \<mapsto> canonical_record d] ++ domain_records ds"
  by (simp add: domain_records_def)

lemma dom_domain_records: "dom (domain_records ds) = set (map entry_name ds)"
  by (induction ds) (auto simp: domain_records_Cons domain_records_def)

lemma get_domains_dict_loop_entries:
  "list_all is_domain_entry ds \<Longrightarrow> names_dict acc \<Longrightarrow>
   \<exists>r. get_domains_dict_loop acc ds = Inr r \<and> names_dict r \<and>
       dict_view r = dict_view acc ++ domain_records ds"
proof (induction ds arbitrary: acc)
  case Nil
  then show ?case by (simp add: domain_records_def)
next
  case (Cons d ds)
  from Cons.prems obtain kvs where
    canon: "canonical_record d = JObj kvs" "map_of kvs ''domain'' = Some (JStr (entry_name d))"
    by (cases d) (auto split: option.splits json.splits)
  let ?acc = "vdict_set (JStr (entry_name d)) (JObj kvs) acc"
  from Cons.prems canon have step: "get_domains_dict_loop acc (d # ds) = get_domains_dict_loop ?acc ds"
    by (cases d) (auto split: option.splits json.splits)
  from vdict_set_view [OF Cons.prems(2) canon(2)]
  have acc: "names_dict ?acc" "dict_view ?acc = (dict_view acc)(entry_name d \<mapsto> JObj kvs)"
    by simp_all
  from Cons.IH [OF _ acc(1)] Cons.prems(1) obtain r where
    r: "get_domains_dict_loop ?acc ds = Inr r" "names_dict r"
       "dict_view r = dict_view ?acc ++ domain_records ds"
    by auto
  have "dict_view ?acc ++ domain_records ds = dict_view acc ++ domain_records (d # ds)"
    by (simp add: acc(2) domain_records_Cons canon(1) fun_eq_iff map_add_def split: option.splits)
  with r step show ?case by simp
qed

lemma get_domains_dict_entries:
  assumes "list_all is_domain_entry ds"
  shows "\<exists>r. get_domains_dict (JList ds) = Inr r \<and> names_dict r \<and> dict_view r = domain_records ds"
  using get_domains_dict_loop_entries [OF assms, of "[]"]
  by (simp add: get_domains_dict_def py_iter_def)

lemma dict_view_dom: "names_dict d \<Longrightarrow> n \<in> dom (dict_view d) \<longleftrightarrow> JStr n \<in> fst ` set d"
  using dict_view_None [of d n] by (auto simp: dom_def)

lemma names_dict_key: "names_dict d \<Longrightarrow> (k, v) \<in> set d \<Longrightarrow> \<exists>n. k = JStr n"
  by (auto simp: names_dict_def)

lemma list_all_has_view:
  assumes "names_dict a" "names_dict b"
  shows "list_all (\<lambda>kv. vdict_has b (fst kv)) a \<longleftrightarrow> dom (dict_view a) \<subseteq> dom (dict_view b)"
proof
  assume l: "list_all (\<lambda>kv. vdict_has b (fst kv)) a"
  show "dom (dict_view a) \<subseteq> dom (dict_view b)"
  proof
    fix n assume "n \<in> dom (dict_view a)"
    then have "JStr n \<in> fst ` set a" using assms(1) by (simp add: dict_view_dom)
    then obtain v where "(JStr n, v) \<in> set a" by auto
    with l have "vdict_has b (JStr n)" by (auto simp: list_all_iff)
    then show "n \<in> dom (dict_view b)" using assms(2) by (simp add: vdict_has_view)
  qed
next
  assume s: "dom (dict_view a) \<subseteq> dom (dict_view b)"
  show "list_all (\<lambda>kv. vdict_has b (fst kv)) a"
    unfolding list_all_iff
  proof
    fix kv assume kv: "kv \<in> set a"
    obtain k v where "kv = (k, v)" by (cases kv)
    with kv assms(1) obtain n where n: "kv = (JStr n, v)" by (auto dest: names_dict_key)
    with kv have "JStr n \<in> fst ` set a" by force
    then have "n \<in> dom (dict_view a)" using assms(1) by (simp add: dict_view_dom)
    with s have "n \<in> dom (dict_view b)" by auto
    then show "vdict_has b (fst kv)" using assms(2) n by (simp add: vdict_has_view)
  qed
qed

lemma vdict_keys_differ_view:
  "names_dict a \<Longrightarrow> names_dict b \<Longrightarrow>
   vdict_keys_differ a b \<longleftrightarrow> dom (dict_view a) \<noteq> dom (dict_view b)"
  by (auto simp: vdict_keys_differ_def list_all_has_view)

lemma records_differ_view:
  "names_dict a \<Longrightarrow> names_dict b \<Longrightarrow>
   records_differ (map snd a) b =
     Inr (\<exists>n \<in> dom (dict_view a). \<not> py_eq (record_of (dict_view a) n) (record_of (dict_view b) n))"
proof (induction a)
  case Nil
  then show ?case by simp
next
  case (Cons x a)
  obtain k v where x: "x = (k, v)" by (cases x)
  with Cons.prems obtain n kvs where
    k: "k = JStr n" and v: "v = JObj kvs" and dom: "map_of kvs ''domain'' = Some (JStr n)"
    and fresh: "JStr n \<notin> fst ` set a" and a: "names_dict a"
    by (auto simp: names_dict_Cons)
  from fresh a have none: "dict_view a n = None" by (simp add: dict_view_None)
  have view: "dict_view (x # a) = (dict_view a)(n \<mapsto> v)"
    by (simp add: x k dict_view_Cons)
  have get: "vdict_get b (JStr n) = record_of (dict_view b) n"
    using Cons.prems(2) by (simp add: vdict_get_view record_of_def)
  have rest: "\<And>m. m \<in> dom (dict_view a) \<Longrightarrow>
      record_of ((dict_view a)(n \<mapsto> v)) m = record_of (dict_view a) m"
    using none by (auto simp: record_of_def)
  have split: "(\<exists>m \<in> dom (dict_view (x # a)).
           \<not> py_eq (record_of (dict_view (x # a)) m) (record_of (dict_view b) m)) \<longleftrightarrow>
        (\<not> py_eq v (record_of (dict_view b) n) \<or>
         (\<exists>m \<in> dom (dict_view a). \<not> py_eq (record_of (dict_view a) m) (record_of (dict_view b) m)))"
    unfolding view using rest by (auto simp: record_of_def)
  have step: "records_differ (map snd (x # a)) b =
      (if \<not> py_eq v (record_of (dict_view b) n) then Inr True
       else records_differ (map snd a) b)"
    unfolding get [symmetric] by (simp add: x v py_getitem_def dom del: py_eq.simps)
  show ?case
    unfolding step split using Cons.IH [OF a Cons.prems(2)] by simp
qed

lemma domains_changed_view:
  "names_dict a \<Longrightarrow> names_dict b \<Longrightarrow>
   domains_changed a b =
     Inr (dom (dict_view a) \<noteq> dom (dict_view b) \<or>
          (\<exists>n \<in> dom (dict_view a). \<not> py_eq (record_of (dict_view a) n) (record_of (dict_view b) n)))"
  by (simp add: domains_changed_def vdict_keys_differ_view records_differ_view)

lemma sync_domains_entries:
  assumes cur: "get_domains site snova_path w = (Inr (JList existing), w)"
    and e: "list_all is_domain_entry existing" and p: "list_all is_domain_entry proposed"
  shows "sync_domains site (JList proposed) snova_path w =
           (if entries_changed existing proposed
            then bind (update_site_config site [(''domains'', JList proposed)] ''.'')
                   (\<lambda>_. ret True) w
            else (Inr False, w))"
proof -
  from get_domains_dict_entries [OF e] obtain a where
    a: "get_domains_dict (JList existing) = Inr a" "names_dict a"
       "dict_view a = domain_records existing"
    by blast
  from get_domains_dict_entries [OF p] obtain b where
    b: "get_domains_dict (JList proposed) = Inr b" "names_dict b"
       "dict_view b = domain_records proposed"
    by blast
  have "domains_changed a b = Inr (entries_changed existing proposed)"
    using a(2) b(2)
    by (simp add: domains_changed_view a(3) b(3) dom_domain_records entries_changed_def
        del: set_map)
  then show ?thesis
    by (simp add: sync_domains_def bind_def cur lift_def a(1) b(1) ret_def)
qed

lemma py_eq_items_fields:
  "py_eq_items a b \<Longrightarrow> map_of a k = Some v \<Longrightarrow> rel_option py_eq (map_of a k) (map_of b k)"
  by (induction a) (auto split: option.splits if_splits)

lemma py_eq_items_keys: "py_eq_items a b \<Longrightarrow> fst ` set a \<subseteq> fst ` set b"
proof (induction a)
  case Nil
  then show ?case by simp
next
  case (Cons x a)
  obtain k v where x: "x = (k, v)" by (cases x)
  from Cons.prems x obtain v' where "map_of b k = Some v'" "py_eq_items a b"
    by (auto split: option.splits)
  then show ?case using Cons.IH x by (auto dest: map_of_SomeD intro: rev_image_eqI)
qed

lemma py_eq_object_fields:
  assumes eq: "py_eq (JObj a) (JObj b)" and dist: "distinct (map fst a)"
  shows "rel_option py_eq (map_of a k) (map_of b k)"
proof (cases "map_of a k")
  case (Some v)
  with eq show ?thesis using py_eq_items_fields [of a b k v] by simp
next
  case None
  then have False: "k \<notin> fst ` set a" by (simp add: map_of_eq_None_iff)
  from eq have len: "length a = length b" and sub: "fst ` set a \<subseteq> fst ` set b"
    by (simp_all add: py_eq_items_keys)
  have "card (fst ` set b) \<le> length b"
    using card_length [of "map fst b"] by simp
  moreover have "card (fst ` set a) = length a"
    using distinct_card [OF dist] by simp
  ultimately have "card (fst ` set b) \<le> card (fst ` set a)"
    using len by simp
  with sub have "fst ` set a = fst ` set b"
    by (intro card_seteq) simp_all
  with False have "map_of a k = None" "map_of b k = None"
    by (simp_all add: map_of_eq_None_iff)
  then show ?thesis by simp
qed

lemma domain_records_SomeD:
  "domain_records ds n = Some r \<Longrightarrow> \<exists>d \<in> set ds. entry_name d = n \<and> r = canonical_record d"
  by (auto simp: domain_records_def dest!: map_of_SomeD)

lemma canonical_record_object:
  "is_domain_entry d \<Longrightarrow> wf_json d \<Longrightarrow>
   \<exists>kvs. canonical_record d = JObj kvs \<and> distinct (map fst kvs)"
  by (cases d) auto

lemma canonical_record_object':
  "is_domain_entry d \<Longrightarrow> \<exists>kvs. canonical_record d = JObj kvs"
  by (cases d) auto


lemma update_site_config_cases:
  "update_site_config site new_config snova_path w =
     (case files w (site_config_path snova_path site) of
        None \<Rightarrow> (Inr (), w\<lparr>files := (files w)(site_config_path snova_path site \<mapsto>
                                   JObj (dict_update [] new_config))\<rparr>)
      | Some (JObj cfg) \<Rightarrow>
          (Inr (), w\<lparr>files := (files w)(site_config_path snova_path site \<mapsto>
                                   JObj (dict_update cfg new_config))\<rparr>)
      | Some _ \<Rightarrow> (Inl AttributeError, w))"
  by (simp add: update_site_config_def get_site_config_def bind_def lift_def py_update_def
      put_site_config_def json_dump_def split: option.splits json.splits)

lemma example_domains:
  "get_domains ''site1'' ''.'' example_world =
     (Inr (JList [JStr ''a.com'',
                  JObj [(''domain'', JStr ''b.com''), (''ssl_certificate'', JStr ''X''),
                        (''ssl_certificate_key'', JStr ''Y'')]]), example_world)"
  by (rule get_domains_list [where cfg = "[(''host_name'', JStr ''http://one.example''),
           (''nginx'', JObj [(''port'', JInt 80), (''gzip'', JBool True)]),
           (''domains'',
              JList [JStr ''a.com'',
                     JObj [(''domain'', JStr ''b.com''),
                           (''ssl_certificate'', JStr ''X''),
                           (''ssl_certificate_key'', JStr ''Y'')]])]"])
     (simp_all add: example_paths example_world_def example_site_config_def)

text \<open>
  Claim C3. Let \<open>existing\<close>, the list \<open>get_domains\<close> reads for the site, and \<open>proposed\<close> be
  lists of domain entries with the same set of names whose canonical records are \<open>==\<close>
  name by name; entries may be bare or records, in any order. Then \<open>sync_domains\<close>
  returns \<open>False\<close> and leaves the world as it found it: nothing is written.
\<close>

theorem sync_domains_equal_lists_unchanged:
  assumes cur: "get_domains site snova_path w = (Inr (JList existing), w)"
    and e: "list_all is_domain_entry existing"
    and p: "list_all is_domain_entry proposed"
    and names: "set (map entry_name existing) = set (map entry_name proposed)"
    and recs: "\<forall>n \<in> set (map entry_name existing).
                 rel_option py_eq (domain_records existing n) (domain_records proposed n)"
  shows "sync_domains site (JList proposed) snova_path w = (Inr False, w)"
proof -
  have "py_eq (record_of (domain_records existing) n) (record_of (domain_records proposed) n)"
    if n: "n \<in> set (map entry_name existing)" for n
  proof -
    from n obtain r where r: "domain_records existing n = Some r"
      using dom_domain_records [of existing] by blast
    from n names obtain r' where r': "domain_records proposed n = Some r'"
      using dom_domain_records [of proposed] by blast
    from recs n r r' show ?thesis by (auto simp: record_of_def)
  qed
  with names have "\<not> entries_changed existing proposed"
    unfolding entries_changed_def by blast
  then show ?thesis
    using sync_domains_entries [OF cur e p] by simp
qed

theorem sync_domains_equal_lists_unchanged_witness:
  "sync_domains ''site1''
     (JList [JObj [(''ssl_certificate_key'', JStr ''Y''), (''domain'', JStr ''b.com''),
                   (''ssl_certificate'', JStr ''X'')],
             JObj [(''domain'', JStr ''a.com'')]])
     ''.'' example_world = (Inr False, example_world)"
  by (rule sync_domains_equal_lists_unchanged [OF example_domains])
     (auto simp: domain_records_def)

text \<open>
  Claim C4. Let \<open>existing\<close> and \<open>proposed\<close> be lists of domain entries with the same set of
  names, and let the canonical records of some name \<open>n\<close> differ at a field \<open>k\<close>: one has the
  field and the other has not, or both have it with values that are not \<open>==\<close>. Then
  \<open>sync_domains\<close> returns \<open>True\<close>. (The records of \<open>existing\<close> are dicts, so none has a key
  twice; the site config under \<open>"."\<close>, which the write goes to, is an object or is
  missing.) The witness is the scenario of the claim: \<open>["a.com", {"domain": "b.com",
  "ssl_certificate": "X", "ssl_certificate_key": "Y"}]\<close> against \<open>["a.com", "b.com"]\<close>.
\<close>

theorem sync_domains_field_difference_changed:
  assumes cur: "get_domains site snova_path w = (Inr (JList existing), w)"
    and e: "list_all is_domain_entry existing"
    and p: "list_all is_domain_entry proposed"
    and dicts: "list_all wf_json existing"
    and names: "set (map entry_name existing) = set (map entry_name proposed)"
    and n: "n \<in> set (map entry_name existing)"
    and field: "\<not> rel_option py_eq (record_field (domain_records existing n) k)
                                  (record_field (domain_records proposed n) k)"
    and target: "files w (site_config_path ''.'' site) = None \<or>
                 (\<exists>c. files w (site_config_path ''.'' site) = Some (JObj c))"
  shows "fst (sync_domains site (JList proposed) snova_path w) = Inr True"
proof -
  from n obtain r where r: "domain_records existing n = Some r"
    using dom_domain_records [of existing] by blast
  from n names obtain r' where r': "domain_records proposed n = Some r'"
    using dom_domain_records [of proposed] by blast
  from domain_records_SomeD [OF r] e dicts obtain a where
    a: "r = JObj a" "distinct (map fst a)"
    by (metis canonical_record_object list_all_iff)
  from domain_records_SomeD [OF r'] p obtain b where b: "r' = JObj b"
    by (metis canonical_record_object' list_all_iff)
  from field have "\<not> rel_option py_eq (map_of a k) (map_of b k)"
    by (simp add: record_field_def r r' a(1) b)
  with a(2) have "\<not> py_eq (JObj a) (JObj b)"
    using py_eq_object_fields by blast
  then have "\<not> py_eq (record_of (domain_records existing) n) (record_of (domain_records proposed) n)"
    by (simp add: record_of_def r r' a(1) b)
  with n have "entries_changed existing proposed"
    unfolding entries_changed_def by blast
  then have "sync_domains site (JList proposed) snova_path w =
      bind (update_site_config site [(''domains'', JList proposed)] ''.'') (\<lambda>_. ret True) w"
    using sync_domains_entries [OF cur e p] by simp
  with target show ?thesis
    by (auto simp: update_site_config_cases bind_def ret_def)
qed

theorem sync_domains_field_difference_changed_witness:
  "fst (sync_domains ''site1'' (JList [JStr ''a.com'', JStr ''b.com'']) ''.'' example_world) =
     Inr True"
  by (rule sync_domains_field_difference_changed
        [OF example_domains, where n = "''b.com''" and k = "''ssl_certificate''"])
     (simp_all add: domain_records_def record_field_def example_paths example_world_def
        example_site_config_def)



section \<open>Properties of the supervisor restart\<close>

lemma str_contains_sublist: "str_contains sub s \<longleftrightarrow> sublist sub s"
  by (induction s) (auto simp: sublist_Cons_right)

text \<open>
  Claim C6. Let the installation config be an object without a true
  \<open>supervisor_restart_cmd\<close>, and let \<open>supervisorctl status\<close> fail with exit code 127. Then
  \<open>restart_supervisor_processes\<close> returns without raising; it has logged \<open>restart failed:
  Couldn't find supervisorctl in PATH\<close> at level 3, and the probe is the only command it
  has started: no \<open>sudo\<close> probe and no restart command.
\<close>

theorem restart_skipped_when_supervisorctl_missing:
  assumes conf: "snova_conf snova_path w = (Inr (JObj c), w)"
    and no_override: "\<not> py_truthy (dict_get c ''supervisor_restart_cmd'')"
    and probe: "get_cmd_output e ''supervisorctl status'' = Inl (CalledProcessError 127)"
  shows "restart_supervisor_processes e snova_path web_workers raise_on_failure w =
           (Inr (),
            w\<lparr>logs := logs w @ [(''restart failed: Couldn'' @ [CHR 0x27]
                                   @ ''t find supervisorctl in PATH'', 3)],
              trace := trace w @ [EvGetCmdOutput ''supervisorctl status'']\<rparr>)"
  using no_override
  by (simp add: restart_supervisor_processes_def bind_def conf lift_def py_get_def
      get_cmd_output_in_def record_event_def probe log_def)

theorem restart_skipped_when_supervisorctl_missing_witness:
  "restart_supervisor_processes example_env ''.'' False False example_world =
     (Inr (),
      example_world\<lparr>logs := [(''restart failed: Couldn'' @ [CHR 0x27]
                                   @ ''t find supervisorctl in PATH'', 3)],
              trace := [EvGetCmdOutput ''supervisorctl status'']\<rparr>)"
proof -
  have conf: "snova_conf ''.'' example_world =
      (Inr (JObj [(''redis_cache'', JStr ''redis://localhost''),
           (''db'', JObj [(''port'', JInt 3306), (''host'', JStr ''localhost'')]),
           (''maintenance_mode'', JInt 0)]), example_world)"
    by (simp add: snova_conf_def example_paths example_world_def example_common_config_def)
  have no_override: "\<not> py_truthy (dict_get [(''redis_cache'', JStr ''redis://localhost''),
           (''db'', JObj [(''port'', JInt 3306), (''host'', JStr ''localhost'')]),
           (''maintenance_mode'', JInt 0)] ''supervisor_restart_cmd'')"
    by (simp add: dict_get_def)
  have probe: "get_cmd_output example_env ''supervisorctl status'' = Inl (CalledProcessError 127)"
    by (simp add: example_env_def)
  show ?thesis
    using restart_skipped_when_supervisorctl_missing [OF conf no_override probe, of False False]
    by (simp add: example_world_def)
qed

text \<open>
  Claim C7. Let there be no override command, and let \<open>supervisorctl status\<close> succeed with
  an output that shows no permission error. Then the one command run after the probe is
  \<open>supervisorctl restart <group>\<close>, and the group is the first that applies of: the
  web-only \<open><name>-web:\<close> (which the code writes with a tab after it) when \<open>web_workers\<close>
  is set and the output contains \<open><name>-web:\<close>; the combined
  \<open><name>-workers: <name>-web:\<close> when the output contains \<open><name>-workers:\<close>; the legacy
  \<open><name>-processes:\<close> when the output contains it; and \<open>sparrow:\<close> otherwise.
  \<open>sublist\<close> is HOL's "occurs as a contiguous part".
\<close>

theorem restart_group_priority:
  assumes conf: "snova_conf snova_path w = (Inr (JObj c), w)"
    and no_override: "\<not> py_truthy (dict_get c ''supervisor_restart_cmd'')"
    and probe: "get_cmd_output e ''supervisorctl status'' = Inr status"
    and permitted: "\<not> sublist permission_denied status"
    and name: "get_snova_name e snova_path = name"
  shows "\<exists>group r w'.
           restart_supervisor_processes e snova_path web_workers raise_on_failure w = (r, w') \<and>
           trace w' = trace w @ [EvGetCmdOutput ''supervisorctl status'',
                                 EvRun (''supervisorctl restart '' @ group) raise_on_failure] \<and>
           group =
             (if web_workers \<and> sublist (name @ ''-web:'') status
                then name @ ''-web:'' @ [CHR 0x09]
              else if sublist (name @ ''-workers:'') status
                then name @ ''-workers: '' @ name @ ''-web:''
              else if sublist (name @ ''-processes:'') status
                then name @ ''-processes:''
              else ''sparrow:'')"
proof -
  have "restart_supervisor_processes e snova_path web_workers raise_on_failure w =
      restart_with e name web_workers raise_on_failure [] status
        (w\<lparr>trace := trace w @ [EvGetCmdOutput ''supervisorctl status'']\<rparr>)"
    using no_override permitted
    by (simp add: restart_supervisor_processes_def bind_def conf lift_def py_get_def
        get_cmd_output_in_def record_event_def probe name str_contains_sublist)
  then show ?thesis
    by (auto simp: restart_with_def snova_run_def bind_def record_event_def raise_def ret_def
        log_def restart_group_def str_contains_sublist)
qed

theorem restart_group_priority_witness:
  "(\<exists>r w'. restart_supervisor_processes example_env_running ''.'' True False example_world = (r, w') \<and>
            trace w' = [EvGetCmdOutput ''supervisorctl status'',
                        EvRun (''supervisorctl restart myinstall-web:'' @ [CHR 0x09]) False]) \<and>
   (\<exists>r w'. restart_supervisor_processes example_env_running ''.'' False False example_world = (r, w') \<and>
            trace w' = [EvGetCmdOutput ''supervisorctl status'',
                        EvRun ''supervisorctl restart myinstall-workers: myinstall-web:'' False])"
proof -
  have conf: "snova_conf ''.'' example_world =
      (Inr (JObj [(''redis_cache'', JStr ''redis://localhost''),
           (''db'', JObj [(''port'', JInt 3306), (''host'', JStr ''localhost'')]),
           (''maintenance_mode'', JInt 0)]), example_world)"
    by (simp add: snova_conf_def example_paths example_world_def example_common_config_def)
  have no_override: "\<not> py_truthy (dict_get [(''redis_cache'', JStr ''redis://localhost''),
           (''db'', JObj [(''port'', JInt 3306), (''host'', JStr ''localhost'')]),
           (''maintenance_mode'', JInt 0)] ''supervisor_restart_cmd'')"
    by (simp add: dict_get_def)
  have probe: "get_cmd_output example_env_running ''supervisorctl status'' = Inr example_status"
    by (simp add: example_env_running_def)
  have permitted: "\<not> sublist permission_denied example_status"
    unfolding str_contains_sublist [symmetric]
    by (simp add: permission_denied_def example_status_def)
  have name: "get_snova_name example_env_running ''.'' = ''myinstall''"
    by (simp add: example_env_running_def example_env_def)
  have web: "sublist (''myinstall'' @ ''-web:'') example_status"
    and workers: "sublist (''myinstall'' @ ''-workers:'') example_status"
    unfolding str_contains_sublist [symmetric]
    by (simp_all add: example_status_def)
  show ?thesis
    using restart_group_priority [OF conf no_override probe permitted name, of True False]
      restart_group_priority [OF conf no_override probe permitted name, of False False]
      web workers
    by (simp add: example_world_def)
qed

section \<open>Properties of \<open>update\<close>\<close>

subsection \<open>Rules for runs\<close>

lemma triple_bind:
  "triple P m Q E \<Longrightarrow> (\<And>x. triple (Q x) (f x) R E) \<Longrightarrow> triple P (bind m f) R E"
  by (fastforce simp: triple_def bind_def split: prod.splits sum.splits)

lemma triple_if:
  "triple P m Q E \<Longrightarrow> triple P m' Q E \<Longrightarrow> triple P (if c then m else m') Q E"
  by simp

lemma triple_ret: "(\<And>w. P w \<Longrightarrow> Q x w) \<Longrightarrow> triple P (ret x) Q E"
  by (simp add: triple_def ret_def)

lemma triple_lift:
  "(\<And>w x. P w \<Longrightarrow> r = Inr x \<Longrightarrow> Q x w) \<Longrightarrow> (\<And>w e. P w \<Longrightarrow> r = Inl e \<Longrightarrow> E e w) \<Longrightarrow>
   triple P (lift r) Q E"
  by (cases r) (simp_all add: triple_def lift_def)

text \<open>Halting before the patch stage and in it.\<close>

lemma patch_halt_before:
  "list_all before_patch (trace w) \<Longrightarrow> patch_halt snova_path e w"
proof -
  assume a: "list_all before_patch (trace w)"
  have "\<not> is_migrate (last (trace w))" if "trace w \<noteq> []"
  proof -
    from that have "last (trace w) \<in> set (trace w)" by simp
    with a have "before_patch (last (trace w))" by (simp add: list_all_iff)
    then show ?thesis by (cases "last (trace w)") simp_all
  qed
  then show ?thesis by (auto simp: patch_halt_def)
qed

lemma patch_halt_during:
  assumes "list_all (\<lambda>ev. before_patch ev \<or> is_migrate ev) (trace w)"
    and "maintenance_on snova_path (files w)"
  shows "patch_halt snova_path e w"
proof -
  have "EvBuild \<notin> set (trace w)" "EvReload web supervisor systemd \<notin> set (trace w)"
    for web supervisor systemd
    using assms(1) by (auto simp: list_all_iff)
  with assms(2) show ?thesis
    by (simp add: patch_halt_def halted_in_maintenance_def)
qed

lemma adds_early_simple:
  "adds_early (ret x)" "adds_early (raise e)" "adds_early (lift r)" "adds_early (print s)"
  "adds_early (log s n)"
  by (simp_all add: adds_early_def ret_def raise_def lift_def print_def log_def)

lemma adds_early_event: "before_patch ev \<Longrightarrow> adds_early (record_event ev)"
  by (simp add: adds_early_def record_event_def)

lemma adds_early_bind:
  assumes "adds_early m" "\<And>x. adds_early (f x)"
  shows "adds_early (bind m f)"
  unfolding adds_early_def
proof
  fix w
  obtain r w1 where m: "m w = (r, w1)" by (cases "m w")
  from assms(1) m obtain evs where
    1: "files w1 = files w" "trace w1 = trace w @ evs" "list_all before_patch evs"
    unfolding adds_early_def by (metis snd_conv)
  show "files (snd (bind m f w)) = files w \<and>
        (\<exists>evs. trace (snd (bind m f w)) = trace w @ evs \<and> list_all before_patch evs)"
  proof (cases r)
    case (Inl e)
    with m 1 show ?thesis by (auto simp: bind_def)
  next
    case (Inr x)
    from assms(2) [of x] obtain evs' where
      2: "files (snd (f x w1)) = files w1" "trace (snd (f x w1)) = trace w1 @ evs'"
         "list_all before_patch evs'"
      unfolding adds_early_def by blast
    from Inr m have "bind m f w = f x w1" by (simp add: bind_def)
    with 1 2 show ?thesis by auto
  qed
qed

lemma adds_early_if: "adds_early m \<Longrightarrow> adds_early m' \<Longrightarrow> adds_early (if c then m else m')"
  by simp

lemma adds_early_validate_branch_loop: "adds_early (validate_branch_loop e names)"
  by (induction names) (auto intro!: adds_early_bind adds_early_simple)

lemma adds_early_validate_branch: "adds_early (validate_branch e)"
  by (simp add: validate_branch_def adds_early_validate_branch_loop)

lemma adds_early_handle_version_upgrade:
  "adds_early (handle_version_upgrade e version_upgrade snova_path forced hard conf)"
  unfolding handle_version_upgrade_def validate_upgrade_def
  by (intro adds_early_bind adds_early_if adds_early_simple adds_early_event) simp_all

lemma triple_adds_early:
  assumes "adds_early m"
  shows "triple (\<lambda>w. list_all before_patch (trace w) \<and> F) m
           (\<lambda>_ w. list_all before_patch (trace w) \<and> F) (patch_halt snova_path)"
  unfolding triple_def
proof (intro allI impI)
  fix w :: world assume P: "list_all before_patch (trace w) \<and> F"
  obtain r w1 where m: "m w = (r, w1)" by (cases "m w")
  from assms m obtain evs where "trace w1 = trace w @ evs" "list_all before_patch evs"
    unfolding adds_early_def by (metis snd_conv)
  with P have "list_all before_patch (trace w1)" by simp
  with P m show "case m w of (Inl e, w') \<Rightarrow> patch_halt snova_path e w'
      | (Inr x, w') \<Rightarrow> list_all before_patch (trace w') \<and> F"
    by (cases r) (simp_all add: patch_halt_before)
qed

lemma after_patch_simple:
  "after_patch (ret x)" "after_patch (print s)" "after_patch (log s n)"
  "after_patch (lift (py_get c k))" "after_patch (lift (py_update c u))"
  "after_patch (snova_conf p)"
  by (auto simp: after_patch_def ret_def print_def log_def lift_def py_get_def py_update_def
      snova_conf_def split: json.splits option.splits)

lemma after_patch_call: "\<not> is_migrate ev \<Longrightarrow> after_patch (call ev f)"
  by (auto simp: after_patch_def call_def split: prod.splits option.splits)

lemma after_patch_update_config: "after_patch (update_config c p)"
  by (auto simp: after_patch_def update_config_def update_common_site_config_def raise_def
      py_update_def Let_def split: json.splits option.splits)

lemma after_patch_bind:
  assumes "after_patch m" "\<And>x. after_patch (f x)"
  shows "after_patch (bind m f)"
  unfolding after_patch_def
proof
  fix w
  obtain r w1 where m: "m w = (r, w1)" by (cases "m w")
  show "case bind m f w of
          (Inl e, w') \<Rightarrow> e \<noteq> PatchError \<or> (trace w' \<noteq> [] \<and> \<not> is_migrate (last (trace w')))
        | (Inr x, w') \<Rightarrow> True"
  proof (cases r)
    case (Inl e)
    with assms(1) m show ?thesis
      unfolding after_patch_def bind_def by (metis (mono_tags, lifting) old.prod.case old.sum.simps(5))
  next
    case (Inr x)
    with m have "bind m f w = f x w1" by (simp add: bind_def)
    with assms(2) [of x] show ?thesis
      unfolding after_patch_def by simp
  qed
qed

lemma after_patch_if: "after_patch m \<Longrightarrow> after_patch m' \<Longrightarrow> after_patch (if c then m else m')"
  by simp

lemma after_patch_post_upgrade: "after_patch (post_upgrade e from_ver to_ver p)"
  unfolding post_upgrade_def
  by (intro after_patch_bind after_patch_if after_patch_simple after_patch_call) simp_all

lemma triple_after_patch:
  "after_patch m \<Longrightarrow> triple (\<lambda>w. True) m (\<lambda>x w. True) (patch_halt p)"
  by (auto simp: triple_def after_patch_def patch_halt_def split: prod.splits sum.splits)

subsection \<open>The stages of \<open>update\<close>\<close>

lemma triple_patches_run:
  "triple (\<lambda>w. trace w = [] \<and> config_is_dict p (snd (patches_run e (files w))))
     (call EvInternalPatches (patches_run e))
     (\<lambda>_ w. list_all before_patch (trace w) \<and> config_is_dict p (files w))
     (patch_halt p)"
  by (auto simp: triple_def call_def patch_halt_before split: prod.splits option.splits)

lemma triple_snova_conf:
  "triple (\<lambda>w. list_all before_patch (trace w) \<and> config_is_dict p (files w))
     (snova_conf p)
     (\<lambda>conf w. list_all before_patch (trace w) \<and> (\<forall>c. conf = JObj c \<longrightarrow> distinct (map fst c)))
     (patch_halt p)"
  by (auto simp: triple_def snova_conf_def config_is_dict_def split: option.splits json.splits)

lemma triple_get_release:
  "triple (\<lambda>w. list_all before_patch (trace w) \<and> (\<forall>c. conf = JObj c \<longrightarrow> distinct (map fst c)))
     (lift (py_get conf k))
     (\<lambda>_ w. list_all before_patch (trace w) \<and> is_dict conf)
     (patch_halt p)"
  by (rule triple_lift) (auto simp: py_get_def is_dict_def patch_halt_before split: json.splits)

lemma triple_enter_maintenance:
  "triple (\<lambda>w. list_all before_patch (trace w) \<and> is_dict conf)
     (lift (py_update conf [(''maintenance_mode'', JInt 1), (''pause_scheduler'', JInt 1)]))
     (\<lambda>conf1 w. list_all before_patch (trace w) \<and> maintenance_dict conf1)
     (patch_halt p)"
  by (rule triple_lift)
     (auto simp: py_update_def is_dict_def maintenance_dict_def patch_halt_before
        distinct_dict_set map_of_dict_set)

lemma triple_update_config:
  "triple (\<lambda>w. list_all before_patch (trace w) \<and> maintenance_dict conf1)
     (update_config conf1 p) (\<lambda>_. in_maintenance p) (patch_halt p)"
proof -
  have "map_of (sort_key fst (json_sort_keys_items (dict_update content c))) ''maintenance_mode''
          = Some (JInt 1)"
    if "distinct (map fst c)" "map_of c ''maintenance_mode'' = Some (JInt 1)" for content c
    using that
    by (simp add: map_of_sort_key_fst map_of_json_sort_keys_items map_of_dict_update
        map_of_rev_distinct)
  then show ?thesis
    by (auto simp: triple_def maintenance_dict_def update_config_def
        update_common_site_config_def py_update_def Let_def json_dump_def in_maintenance_def
        maintenance_on_def patch_halt_before split: option.splits json.splits)
qed

lemma triple_print_maintenance:
  "triple (in_maintenance p) (print s) (\<lambda>_. in_maintenance p) (patch_halt p)"
  by (simp add: triple_def print_def in_maintenance_def)

lemma triple_call_maintenance:
  assumes "before_patch ev" "keeps_common_config p f"
  shows "triple (in_maintenance p) (call ev f) (\<lambda>_. in_maintenance p) (patch_halt p)"
proof -
  have keep: "maintenance_on p (snd (f fs))" if "maintenance_on p fs" for fs
    using that assms(2) by (simp add: maintenance_on_def keeps_common_config_def)
  show ?thesis
    unfolding triple_def
  proof (intro allI impI)
    fix w assume P: "in_maintenance p w"
    obtain r fs where f: "f (files w) = (r, fs)" by (cases "f (files w)")
    from keep [of "files w"] P f have "maintenance_on p fs"
      by (simp add: in_maintenance_def)
    with P assms(1) have "in_maintenance p (w\<lparr>files := fs, trace := trace w @ [ev]\<rparr>)"
      by (simp add: in_maintenance_def)
    then show "case call ev f w of (Inl e, w') \<Rightarrow> patch_halt p e w'
                | (Inr x, w') \<Rightarrow> in_maintenance p w'"
      by (cases r) (simp_all add: call_def f in_maintenance_def patch_halt_before)
  qed
qed

lemma triple_stage_maintenance:
  assumes "before_patch ev" "keeps_common_config p f"
  shows "triple (in_maintenance p)
           (if c then bind (print s) (\<lambda>_. call ev f) else ret ())
           (\<lambda>_. in_maintenance p) (patch_halt p)"
  by (intro triple_if triple_bind [OF triple_print_maintenance] triple_call_maintenance assms
      triple_ret)

lemma triple_patch_sites_loop:
  assumes "\<forall>site. keeps_common_config p (migrate_site e site)"
  shows "triple (in_patch_stage p) (patch_sites_loop e p' todo) (\<lambda>_. in_patch_stage p) (patch_halt p)"
proof (induction todo)
  case Nil
  then show ?case by (simp add: triple_def ret_def)
next
  case (Cons site todo)
  have keep: "maintenance_on p (snd (migrate_site e site fs))" if "maintenance_on p fs" for fs
    using that assms by (simp add: maintenance_on_def keeps_common_config_def)
  show ?case
    unfolding triple_def
  proof (intro allI impI)
    fix w assume P: "in_patch_stage p w"
    obtain r fs where f: "migrate_site e site (files w) = (r, fs)"
      by (cases "migrate_site e site (files w)")
    let ?w = "w\<lparr>files := fs, trace := trace w @ [EvMigrateSite site]\<rparr>"
    from keep [of "files w"] P f have "maintenance_on p fs"
      by (simp add: in_patch_stage_def)
    with P have stage: "in_patch_stage p ?w"
      by (simp add: in_patch_stage_def)
    then have halt: "patch_halt p err ?w" for err
      by (simp add: in_patch_stage_def patch_halt_during)
    show "case patch_sites_loop e p' (site # todo) w of
            (Inl err, w') \<Rightarrow> patch_halt p err w' | (Inr x, w') \<Rightarrow> in_patch_stage p w'"
    proof (cases r)
      case None
      then have "patch_sites_loop e p' (site # todo) w = patch_sites_loop e p' todo ?w"
        by (simp add: call_def f)
      with Cons.IH stage show ?thesis by (simp add: triple_def)
    next
      case (Some err)
      then have "\<exists>err'. patch_sites_loop e p' (site # todo) w = (Inl err', ?w)"
        by (cases err) (simp_all add: call_def f)
      with halt show ?thesis by auto
    qed
  qed
qed

lemma triple_patch_stage:
  assumes "\<forall>site. keeps_common_config p (migrate_site e site)"
  shows "triple (in_maintenance p)
           (if c then bind (print s) (\<lambda>_. patch_sites e p') else ret ())
           (\<lambda>_ w. True) (patch_halt p)"
proof -
  have enter: "in_patch_stage p w" if "in_maintenance p w" for w
    using that by (auto simp: in_maintenance_def in_patch_stage_def list_all_iff)
  have "triple (in_maintenance p) (patch_sites e p') (\<lambda>_ w. True) (patch_halt p)"
    using triple_patch_sites_loop [OF assms, of p' "sites e"] enter
    unfolding patch_sites_def triple_def
    by (fastforce split: prod.splits sum.splits)
  then show ?thesis
    by (intro triple_if triple_bind [OF triple_print_maintenance] triple_ret) simp_all
qed

lemma triple_update:
  assumes "keeps_common_config (cwd e) (backup_all_sites e)"
    and "\<forall>selected hard. keeps_common_config (cwd e) (pull_apps e selected hard)"
    and "keeps_common_config (cwd e) (setup_requirements e)"
    and "\<forall>site. keeps_common_config (cwd e) (migrate_site e site)"
  shows "triple (\<lambda>w. trace w = [] \<and> config_is_dict (cwd e) (snd (patches_run e (files w))))
           (update e a) (\<lambda>_ w. True) (patch_halt (cwd e))"
  unfolding update_def Let_def
  apply (rule triple_bind [OF triple_patches_run])
  apply (rule triple_bind [OF triple_snova_conf])
  apply (rule triple_bind [OF triple_get_release])
  apply (rule triple_bind [OF triple_adds_early])
   apply (simp add: adds_early_simple)
  apply (rule triple_bind [OF triple_adds_early])
   apply (rule adds_early_validate_branch)
  apply (rule triple_bind [OF triple_adds_early])
   apply (rule adds_early_simple)
  apply (rule triple_bind [OF triple_adds_early])
   apply (rule adds_early_handle_version_upgrade)
  apply (rule triple_bind [OF triple_enter_maintenance])
  apply (rule triple_bind [OF triple_update_config])
  apply (rule triple_bind [OF triple_stage_maintenance])
    apply simp
   apply (rule assms(1))
  apply (rule triple_bind [OF triple_stage_maintenance])
    apply simp
   apply (simp add: assms(2))
  apply (rule triple_bind [OF triple_stage_maintenance])
    apply simp
   apply (rule assms(3))
  apply (rule triple_bind [OF triple_patch_stage])
   apply (rule assms(4))
  apply (rule triple_after_patch)
  apply (intro after_patch_bind after_patch_if after_patch_simple after_patch_call
      after_patch_post_upgrade after_patch_update_config)
   apply simp_all
  done

text \<open>
  Claim C1. Let a run of \<open>update\<close>, started with an empty trace, end with \<open>PatchError\<close>
  while the last step it started was the migration of a site: the patch stage raised.
  Let the installation config read by \<open>update\<close> be a dict, and let the backup, the pull,
  the requirements step and the site migrations leave the installation config file alone.
  Then at the end of the run the installation config is an object with
  \<open>maintenance_mode\<close> 1, and neither the build nor the reload was started.
\<close>

theorem update_halts_in_maintenance_mode:
  assumes run: "update e a w = (Inl PatchError, w')"
    and patching: "trace w' \<noteq> [] \<and> (\<exists>site. last (trace w') = EvMigrateSite site)"
    and fresh: "trace w = []"
    and dict: "config_is_dict (cwd e) (snd (patches_run e (files w)))"
    and backup_frame: "keeps_common_config (cwd e) (backup_all_sites e)"
    and pull_frame: "\<forall>selected hard. keeps_common_config (cwd e) (pull_apps e selected hard)"
    and requirements_frame: "keeps_common_config (cwd e) (setup_requirements e)"
    and migrate_frame: "\<forall>site. keeps_common_config (cwd e) (migrate_site e site)"
  shows "(\<exists>c. files w' (common_site_config_path (cwd e)) = Some (JObj c) \<and>
              map_of c ''maintenance_mode'' = Some (JInt 1)) \<and>
         EvBuild \<notin> set (trace w') \<and>
         (\<forall>web supervisor systemd. EvReload web supervisor systemd \<notin> set (trace w'))"
proof -
  from triple_update [OF backup_frame pull_frame requirements_frame migrate_frame, of a]
    fresh dict run
  have "patch_halt (cwd e) PatchError w'"
    by (auto simp: triple_def)
  with patching have "halted_in_maintenance (cwd e) w'"
    by (auto simp: patch_halt_def)
  then show ?thesis
    by (auto simp: halted_in_maintenance_def maintenance_on_def split: option.splits json.splits)
qed

theorem update_halts_in_maintenance_mode_witness:
  "fst (update example_env example_args example_world) = Inl PatchError \<and>
   trace (snd (update example_env example_args example_world)) =
     [EvInternalPatches, EvBackupAllSites, EvPullApps [] False, EvRequirements,
      EvMigrateSite ''site1'', EvMigrateSite ''site2''] \<and>
   (\<exists>c. files (snd (update example_env example_args example_world))
          (common_site_config_path ''.'') = Some (JObj c) \<and>
        map_of c ''maintenance_mode'' = Some (JInt 1))"
proof -
  let ?w = "snd (update example_env example_args example_world)"
  have result: "fst (update example_env example_args example_world) = Inl PatchError"
    and events: "trace ?w =
     [EvInternalPatches, EvBackupAllSites, EvPullApps [] False, EvRequirements,
      EvMigrateSite ''site1'', EvMigrateSite ''site2'']"
    by (simp_all add: update_def Let_def record_event_def log_def example_env_def example_args_def example_world_def bind_def
        call_def snova_conf_def example_paths lift_def py_get_def dict_get_def
        example_common_config_def raise_def ret_def validate_branch_def
        handle_version_upgrade_def py_update_def update_config_def
        update_common_site_config_def json_dump_def print_def patch_sites_def
        no_files_def)
  from result have run: "update example_env example_args example_world = (Inl PatchError, ?w)"
    by (simp add: prod_eq_iff)
  have patching: "trace ?w \<noteq> [] \<and> (\<exists>site. last (trace ?w) = EvMigrateSite site)"
    unfolding events by simp
  have fresh: "trace example_world = []"
    by (simp add: example_world_def)
  have dict: "config_is_dict (cwd example_env)
                (snd (patches_run example_env (files example_world)))"
    by (simp add: config_is_dict_def example_env_def example_world_def example_paths
        example_common_config_def)
  have frames: "keeps_common_config (cwd example_env) (backup_all_sites example_env)"
    "\<forall>selected hard. keeps_common_config (cwd example_env) (pull_apps example_env selected hard)"
    "keeps_common_config (cwd example_env) (setup_requirements example_env)"
    "\<forall>site. keeps_common_config (cwd example_env) (migrate_site example_env site)"
    by (simp_all add: keeps_common_config_def example_env_def)
  from update_halts_in_maintenance_mode [OF run patching fresh dict frames]
  have "\<exists>c. files ?w (common_site_config_path (cwd example_env)) = Some (JObj c) \<and>
            map_of c ''maintenance_mode'' = Some (JInt 1)"
    by blast
  then show ?thesis
    using result events by (simp add: example_env_def)
qed

text \<open>
  Claim C2, as amended. \<open>update\<close> runs the pending internal patches (\<open>patches.run\<close>) before
  it looks at the config. When that step returns and the installation config it leaves
  is an object with a true \<open>release_snova\<close>, \<open>update\<close> raises \<open>CannotUpdateReleaseSnova\<close>;
  the files are as \<open>patches.run\<close> left them, that step is the only one started, and
  nothing was printed or logged: no config write, backup, pull or later stage.
\<close>

theorem update_blocked_on_release_installation:
  assumes patched: "patches_run e (files w) = (None, fs)"
    and conf: "fs (common_site_config_path (cwd e)) = Some (JObj c)"
    and release: "py_truthy (dict_get c ''release_snova'')"
  shows "update e a w =
           (Inl CannotUpdateReleaseSnova, w\<lparr>files := fs, trace := trace w @ [EvInternalPatches]\<rparr>)"
  using release
  by (simp add: update_def Let_def bind_def call_def patched snova_conf_def conf lift_def
      py_get_def raise_def)

theorem update_blocked_on_release_installation_witness:
  "update example_env example_args release_world =
     (Inl CannotUpdateReleaseSnova, release_world\<lparr>trace := [EvInternalPatches]\<rparr>)"
proof -
  have patched: "patches_run example_env (files release_world) = (None, files release_world)"
    by (simp add: example_env_def)
  have conf: "files release_world (common_site_config_path (cwd example_env)) =
      Some (JObj [(''release_snova'', JBool True)])"
    by (simp add: example_env_def example_paths release_world_def)
  have release: "py_truthy (dict_get [(''release_snova'', JBool True)] ''release_snova'')"
    by (simp add: dict_get_def)
  have same: "release_world\<lparr>files := files release_world,
                              trace := trace release_world @ [EvInternalPatches]\<rparr> =
              release_world\<lparr>trace := [EvInternalPatches]\<rparr>"
    by (simp add: release_world_def)
  show ?thesis
    using update_blocked_on_release_installation [OF patched conf release, of example_args]
    unfolding same .
qed

text \<open>
  The claim as stated fails: with \<open>release_snova\<close> true, a \<open>patches.run\<close> that raises makes
  \<open>update\<close> raise that exception and not \<open>CannotUpdateReleaseSnova\<close>; and a \<open>patches.run\<close>
  that writes a file has touched it before \<open>CannotUpdateReleaseSnova\<close> is raised.
\<close>

theorem update_release_counterexample:
  "files release_world (common_site_config_path ''.'') = Some (JObj [(''release_snova'', JBool True)]) \<and>
   update example_env_broken_patch example_args release_world =
     (Inl (OtherError ''ImportError''), release_world\<lparr>trace := [EvInternalPatches]\<rparr>) \<and>
   fst (update example_env_writing_patch example_args release_world) = Inl CannotUpdateReleaseSnova \<and>
   files (snd (update example_env_writing_patch example_args release_world)) ''./patches.txt''
     \<noteq> files release_world ''./patches.txt''"
  by (simp add: update_def Let_def bind_def call_def example_env_broken_patch_def
      example_env_writing_patch_def example_env_def example_args_def release_world_def
      example_paths snova_conf_def lift_def py_get_def dict_get_def raise_def no_files_def)

section \<open>The bytes the two config writers produce\<close>

text \<open>
  Claim C10. \<open>config_one\<close> and \<open>config_two\<close> are the same mapping (\<open>==\<close> in Python), built in
  different orders. \<open>put_site_config\<close> writes different bytes for them: it passes no
  \<open>sort_keys\<close>, so the keys come in insertion order. \<open>update_common_site_config\<close>, which
  passes \<open>sort_keys=True\<close>, writes the same bytes for both.
\<close>

theorem put_site_config_bytes_follow_insertion_order:
  "py_eq config_one config_two \<and>
   file_bytes (snd (put_site_config ''site1'' config_one ''.'' empty_world))
       ''./sites/site1/site_config.json'' =
     Some (''{'' @ [CHR 0x0A] @ '' '' @ [CHR 0x22] @ ''host_name'' @ [CHR 0x22] @ '': ''
           @ [CHR 0x22] @ ''one.example'' @ [CHR 0x22] @ '','' @ [CHR 0x0A]
           @ '' '' @ [CHR 0x22] @ ''nginx_port'' @ [CHR 0x22] @ '': 80'' @ [CHR 0x0A] @ ''}'') \<and>
   file_bytes (snd (put_site_config ''site1'' config_two ''.'' empty_world))
       ''./sites/site1/site_config.json'' =
     Some (''{'' @ [CHR 0x0A] @ '' '' @ [CHR 0x22] @ ''nginx_port'' @ [CHR 0x22] @ '': 80,''
           @ [CHR 0x0A] @ '' '' @ [CHR 0x22] @ ''host_name'' @ [CHR 0x22] @ '': ''
           @ [CHR 0x22] @ ''one.example'' @ [CHR 0x22] @ [CHR 0x0A] @ ''}'') \<and>
   file_bytes (snd (update_common_site_config
                      [(''host_name'', JStr ''one.example''), (''nginx_port'', JInt 80)] ''.''
                      empty_world))
       ''./sites/common_site_config.json'' =
   file_bytes (snd (update_common_site_config
                      [(''nginx_port'', JInt 80), (''host_name'', JStr ''one.example'')] ''.''
                      empty_world))
       ''./sites/common_site_config.json''"
  by (simp add: config_one_def config_two_def put_site_config_def example_paths file_bytes_def
      json_dump_def empty_world_def json_quote_def json_escape_char_def newline_indent_def
      int_to_str_def update_common_site_config_def no_files_def py_update_def)

end
